theory Spec2Isabelle
  imports Main "HOL-Library.Sublist"
begin

section \<open>Python values and the built-in operations the script relies on\<close>

text \<open>
  \<^verbatim>\<open>stackyter.py\<close> is dynamically typed: an option holds \<^verbatim>\<open>None\<close>, a string or a flag when
  it comes from the command line, and whatever the YAML file holds when it comes from a
  profile. Values are modelled by one datatype. Mappings are keyed by strings (profile
  names and option names) and keep the order of the file; as in a Python \<^verbatim>\<open>dict\<close>, a key
  occurs once. Floating-point scalars are left out. Strings are byte strings. The
  built-in operations are those of Python 3.
\<close>

datatype pyval =
    PNone
  | PBool bool
  | PInt int
  | PStr string
  | PList "pyval list"
  | PDict "(string \<times> pyval) list"

text \<open>
  The exceptions that can leave the script. \<open>IOError\<close> and \<open>ValueError\<close> are the ones the
  source raises itself, with its message; \<open>OSError\<close> is a failing \<^verbatim>\<open>open\<close> (with the path),
  \<open>YAMLError\<close> a failing \<^verbatim>\<open>yaml.load\<close>; the others are raised by the interpreter.
\<close>

datatype error =
    IOError string
  | ValueError string
  | OSError string
  | YAMLError
  | AttributeError
  | TypeError
  | KeyError
  | IndexError

subsection \<open>Equality and truth value\<close>

text \<open>Python's \<^verbatim>\<open>==\<close>: \<^verbatim>\<open>True == 1\<close>, lists compare element by element, dicts regardless of order.\<close>

fun py_eq :: "pyval \<Rightarrow> pyval \<Rightarrow> bool"
  and py_eq_list :: "pyval list \<Rightarrow> pyval list \<Rightarrow> bool"
  and py_eq_items :: "(string \<times> pyval) list \<Rightarrow> (string \<times> pyval) list \<Rightarrow> bool"
where
  "py_eq PNone PNone = True"
| "py_eq (PBool a) (PBool b) = (a = b)"
| "py_eq (PBool a) (PInt j) = (j = (if a then 1 else 0))"
| "py_eq (PInt i) (PBool b) = (i = (if b then 1 else 0))"
| "py_eq (PInt i) (PInt j) = (i = j)"
| "py_eq (PStr s) (PStr t) = (s = t)"
| "py_eq (PList xs) (PList ys) = py_eq_list xs ys"
| "py_eq (PDict xs) (PDict ys) = (length xs = length ys \<and> py_eq_items xs ys)"
| "py_eq _ _ = False"
| "py_eq_list [] [] = True"
| "py_eq_list (x # xs) (y # ys) = (py_eq x y \<and> py_eq_list xs ys)"
| "py_eq_list _ _ = False"
| "py_eq_items [] ys = True"
| "py_eq_items ((k, v) # xs) ys =
     ((case map_of ys k of None \<Rightarrow> False | Some w \<Rightarrow> py_eq v w) \<and> py_eq_items xs ys)"

text \<open>The truth value an \<^verbatim>\<open>if\<close> gives to a value.\<close>

fun py_truthy :: "pyval \<Rightarrow> bool" where
  "py_truthy PNone = False"
| "py_truthy (PBool b) = b"
| "py_truthy (PInt i) = (i \<noteq> 0)"
| "py_truthy (PStr s) = (s \<noteq> [])"
| "py_truthy (PList xs) = (xs \<noteq> [])"
| "py_truthy (PDict d) = (d \<noteq> [])"

subsection \<open>Strings: \<^verbatim>\<open>split\<close>, \<^verbatim>\<open>replace\<close>, \<^verbatim>\<open>join\<close>, \<^verbatim>\<open>str\<close>\<close>

text \<open>\<^verbatim>\<open>s.split(c)\<close> for a one-character separator: \<^verbatim>\<open>"".split(",")\<close> is \<^verbatim>\<open>[""]\<close>.\<close>

primrec py_split :: "char \<Rightarrow> string \<Rightarrow> string list" where
  "py_split c [] = [[]]"
| "py_split c (x # xs) =
     (if x = c then [] # py_split c xs
      else (case py_split c xs of [] \<Rightarrow> [[x]] | w # ws \<Rightarrow> (x # w) # ws))"

text \<open>\<^verbatim>\<open>s.replace(c, new)\<close> for a one-character pattern: every occurrence is replaced.\<close>

primrec py_replace :: "char \<Rightarrow> string \<Rightarrow> string \<Rightarrow> string" where
  "py_replace c new [] = []"
| "py_replace c new (x # xs) = (if x = c then new else [x]) @ py_replace c new xs"

text \<open>\<^verbatim>\<open>sep.join(xs)\<close>.\<close>

fun py_join :: "string \<Rightarrow> string list \<Rightarrow> string" where
  "py_join sep [] = []"
| "py_join sep [x] = x"
| "py_join sep (x # y # ys) = x @ sep @ py_join sep (y # ys)"

text \<open>\<^verbatim>\<open>k in s\<close> for two strings: \<open>k\<close> occurs in \<open>s\<close> as a contiguous run.\<close>

fun is_substring :: "string \<Rightarrow> string \<Rightarrow> bool" where
  "is_substring k [] = (k = [])"
| "is_substring k (x # xs) = (prefix k (x # xs) \<or> is_substring k xs)"

definition digit_char :: "nat \<Rightarrow> char" where
  "digit_char d = ''0123456789abcdef'' ! d"

fun dec_nat :: "nat \<Rightarrow> string" where
  "dec_nat n =
     (if n < 10 then [digit_char n] else dec_nat (n div 10) @ [digit_char (n mod 10)])"

declare dec_nat.simps [simp del]

definition dec_int :: "int \<Rightarrow> string" where
  "dec_int i = (if i < 0 then ''-'' @ dec_nat (nat (- i)) else dec_nat (nat i))"

definition backslash :: char where
  "backslash = CHR 0x5C"

text \<open>
  \<^verbatim>\<open>repr\<close> of a string: single quotes unless the string has a single quote and no double
  quote; backslash, the quote, tab, newline and carriage return are escaped, the other
  control characters are written \<^verbatim>\<open>\xNN\<close>.
\<close>

definition repr_char :: "char \<Rightarrow> char \<Rightarrow> string" where
  "repr_char q c =
     (if c = backslash then [backslash, backslash]
      else if c = q then [backslash, q]
      else if c = CHR 0x09 then [backslash, CHR ''t'']
      else if c = CHR 0x0A then [backslash, CHR ''n'']
      else if c = CHR 0x0D then [backslash, CHR ''r'']
      else if (of_char c :: nat) < 32 \<or> (of_char c :: nat) = 127
        then [backslash, CHR ''x'', digit_char (of_char c div 16), digit_char (of_char c mod 16)]
      else [c])"

definition repr_str :: "string \<Rightarrow> string" where
  "repr_str s =
     (let q = (if CHR 0x27 \<in> set s \<and> CHR 0x22 \<notin> set s then CHR 0x22 else CHR 0x27)
      in [q] @ concat (map (repr_char q) s) @ [q])"

fun py_repr :: "pyval \<Rightarrow> string"
  and py_repr_list :: "pyval list \<Rightarrow> string list"
  and py_repr_items :: "(string \<times> pyval) list \<Rightarrow> string list"
where
  "py_repr PNone = ''None''"
| "py_repr (PBool b) = (if b then ''True'' else ''False'')"
| "py_repr (PInt i) = dec_int i"
| "py_repr (PStr s) = repr_str s"
| "py_repr (PList xs) = ''['' @ py_join '', '' (py_repr_list xs) @ '']''"
| "py_repr (PDict d) = ''{'' @ py_join '', '' (py_repr_items d) @ ''}''"
| "py_repr_list [] = []"
| "py_repr_list (x # xs) = py_repr x # py_repr_list xs"
| "py_repr_items [] = []"
| "py_repr_items ((k, v) # d) = (repr_str k @ '': '' @ py_repr v) # py_repr_items d"

text \<open>\<^verbatim>\<open>str(v)\<close>, which is what \<^verbatim>\<open>"{}".format(v)\<close> inserts: a string as it is, the rest as \<^verbatim>\<open>repr\<close>.\<close>

definition py_str :: "pyval \<Rightarrow> string" where
  "py_str v = (case v of PStr s \<Rightarrow> s | _ \<Rightarrow> py_repr v)"

subsection \<open>Containers: \<^verbatim>\<open>in\<close>, \<^verbatim>\<open>len\<close>, subscription, \<^verbatim>\<open>list(c)[0]\<close>\<close>

text \<open>
  \<^verbatim>\<open>k in c\<close> for a string \<open>k\<close>: a key of a dict, a contiguous run of a string, an element of
  a list; \<^verbatim>\<open>None\<close>, flags and integers are not iterable.
\<close>

fun py_contains :: "pyval \<Rightarrow> string \<Rightarrow> error + bool" where
  "py_contains (PDict d) k = Inr (k \<in> set (map fst d))"
| "py_contains (PStr s) k = Inr (is_substring k s)"
| "py_contains (PList xs) k = Inr (PStr k \<in> set xs)"
| "py_contains _ k = Inl TypeError"

fun py_len :: "pyval \<Rightarrow> error + nat" where
  "py_len (PDict d) = Inr (length d)"
| "py_len (PStr s) = Inr (length s)"
| "py_len (PList xs) = Inr (length xs)"
| "py_len _ = Inl TypeError"

text \<open>Indexing a sequence with an integer: negative indices count from the end.\<close>

definition py_index :: "'a list \<Rightarrow> int \<Rightarrow> error + 'a" where
  "py_index xs i =
     (if 0 \<le> i \<and> i < int (length xs) then Inr (xs ! nat i)
      else if i < 0 \<and> - int (length xs) \<le> i then Inr (xs ! nat (int (length xs) + i))
      else Inl IndexError)"

text \<open>
  \<^verbatim>\<open>c[k]\<close>. A dict needs a hashable key and raises \<^verbatim>\<open>KeyError\<close> when it has no such key (its
  keys are strings, so only a string can be found); a list or a string needs an integer
  (a flag counts as 0 or 1); nothing else can be subscripted.
\<close>

fun py_getitem :: "pyval \<Rightarrow> pyval \<Rightarrow> error + pyval" where
  "py_getitem (PDict d) (PStr k) = (case map_of d k of None \<Rightarrow> Inl KeyError | Some v \<Rightarrow> Inr v)"
| "py_getitem (PDict d) (PList xs) = Inl TypeError"
| "py_getitem (PDict d) (PDict e) = Inl TypeError"
| "py_getitem (PDict d) _ = Inl KeyError"
| "py_getitem (PList xs) (PInt i) = py_index xs i"
| "py_getitem (PList xs) (PBool b) = py_index xs (if b then 1 else 0)"
| "py_getitem (PList xs) _ = Inl TypeError"
| "py_getitem (PStr s) (PInt i) = map_sum id (\<lambda>c. PStr [c]) (py_index s i)"
| "py_getitem (PStr s) (PBool b) = map_sum id (\<lambda>c. PStr [c]) (py_index s (if b then 1 else 0))"
| "py_getitem (PStr s) _ = Inl TypeError"
| "py_getitem _ _ = Inl TypeError"

text \<open>\<^verbatim>\<open>list(c)[0]\<close>: the first key of a dict, the first element of a list, the first character.\<close>

fun py_first :: "pyval \<Rightarrow> error + pyval" where
  "py_first (PDict []) = Inl IndexError"
| "py_first (PDict ((k, v) # d)) = Inr (PStr k)"
| "py_first (PList []) = Inl IndexError"
| "py_first (PList (x # xs)) = Inr x"
| "py_first (PStr []) = Inl IndexError"
| "py_first (PStr (c # s)) = Inr (PStr [c])"
| "py_first _ = Inl TypeError"

section \<open>The world a run sees\<close>

text \<open>
  Everything the script reads from outside: the environment variables, the file system
  (\<open>path_exists\<close> is \<^verbatim>\<open>os.path.exists\<close>, \<open>file_text\<close> the text \<^verbatim>\<open>open(p, 'r').read()\<close> gives,
  \<open>None\<close> when \<^verbatim>\<open>open\<close> fails), the YAML parser applied to a file's text, the state of numpy's
  random generator, and the exit status the shell gives to a command.
\<close>

record world =
  getenv :: "string \<Rightarrow> string option"
  path_exists :: "string \<Rightarrow> bool"
  file_text :: "string \<Rightarrow> string option"
  yaml_load :: "string \<Rightarrow> error + pyval"
  entropy :: nat
  shell :: "string \<Rightarrow> int"

definition open_read :: "world \<Rightarrow> string \<Rightarrow> error + string" where
  "open_read w path = (case file_text w path of None \<Rightarrow> Inl (OSError path) | Some t \<Rightarrow> Inr t)"

text \<open>\<^verbatim>\<open>yaml.load(open(config, 'r'))\<close>\<close>

definition load_yaml :: "world \<Rightarrow> string \<Rightarrow> error + pyval" where
  "load_yaml w path = (case open_read w path of Inl e \<Rightarrow> Inl e | Inr t \<Rightarrow> yaml_load w t)"

text \<open>
  \<^verbatim>\<open>np.random.randint(low, high)\<close>: an integer of the half-open interval from \<open>low\<close> to
  \<open>high\<close>, a function of the generator's state; numpy raises when the interval is empty.
\<close>

definition randint :: "int \<Rightarrow> int \<Rightarrow> nat \<Rightarrow> error + int" where
  "randint low high r =
     (if low < high then Inr (low + int (r mod nat (high - low)))
      else Inl (ValueError ''low >= high''))"

definition squote :: string where
  "squote = [CHR 0x27]"

definition bslash :: string where
  "bslash = [backslash]"

section \<open>Locating and reading the configuration file\<close>

text \<open>
  Line 14: \<^verbatim>\<open>DEFAULT_CONFIG = os.getenv("HOME") + "/.stackyter-config.yaml"\<close>, evaluated when the
  module is loaded; without \<^verbatim>\<open>HOME\<close> the sum of \<^verbatim>\<open>None\<close> and a string is a \<^verbatim>\<open>TypeError\<close>.
\<close>

definition DEFAULT_CONFIG :: "world \<Rightarrow> error + string" where
  "DEFAULT_CONFIG w =
     (case getenv w ''HOME'' of
        None \<Rightarrow> Inl TypeError
      | Some home \<Rightarrow> Inr (home @ ''/.stackyter-config.yaml''))"

text \<open>
  Line 26 calls \<^verbatim>\<open>os.path.exist\<close>. The module \<^verbatim>\<open>os.path\<close> has \<^verbatim>\<open>exists\<close> and no attribute
  \<^verbatim>\<open>exist\<close>, so the attribute lookup raises before any path is looked at.
\<close>

definition os_path_exist :: "world \<Rightarrow> string \<Rightarrow> error + bool" where
  "os_path_exist w path = Inl AttributeError"

text \<open>\<^verbatim>\<open>string_to_list\<close>, lines 17 to 19.\<close>

definition string_to_list :: "pyval \<Rightarrow> error + pyval" where
  "string_to_list a =
     (case a of
        PList xs \<Rightarrow> Inr a
      | PNone \<Rightarrow> Inr a
      | PStr s \<Rightarrow> Inr (PList (map PStr (py_split CHR '','' s)))
      | _ \<Rightarrow> Inl AttributeError)"

text \<open>
  \<^verbatim>\<open>get_default_config\<close>, lines 22 to 33. \<open>dc\<close> is the module's \<^verbatim>\<open>DEFAULT_CONFIG\<close>. The result
  is \<^verbatim>\<open>None\<close>, the path, or the parsed file.
\<close>

definition get_default_config :: "world \<Rightarrow> string \<Rightarrow> bool \<Rightarrow> error + pyval" where
  "get_default_config w dc only_path =
     (let finish = (\<lambda>config. if \<not> only_path then load_yaml w config else Inr (PStr config))
      in case getenv w ''STACKYTERCONFIG'' of
           Some config \<Rightarrow>
             (case os_path_exist w config of
                Inl e \<Rightarrow> Inl e
              | Inr ex \<Rightarrow>
                  if \<not> ex
                  then Inl (IOError ''$STACKYTERCONFIG is defined but the file does not exist.'')
                  else finish config)
         | None \<Rightarrow> if path_exists w dc then finish dc else Inr PNone)"

text \<open>
  \<^verbatim>\<open>read_config\<close>, lines 36 to 61. The result pairs the lines printed with the value
  returned or the exception raised.
\<close>

definition read_config :: "world \<Rightarrow> string \<Rightarrow> string option \<Rightarrow> string list \<times> (error + pyval)" where
  "read_config w config key =
     (let out = [''INFO: Loading configuration from '' @ config]
      in case load_yaml w config of
           Inl e \<Rightarrow> (out, Inl e)
         | Inr cfg \<Rightarrow>
            (case key of
               Some k \<Rightarrow>
                 (case py_contains cfg k of
                    Inl e \<Rightarrow> (out, Inl e)
                  | Inr True \<Rightarrow>
                      (out @ [''INFO: Using the '' @ squote @ k @ squote @ '' configuration''],
                       py_getitem cfg (PStr k))
                  | Inr False \<Rightarrow>
                      (out, Inl (IOError (''Configuration `'' @ k @
                                 ''` does not exist. Check your default file.''))))
             | None \<Rightarrow>
                 (case py_len cfg of
                    Inl e \<Rightarrow> (out, Inl e)
                  | Inr n \<Rightarrow>
                      if n > 1 then
                        (case py_contains cfg ''default_config'' of
                           Inl e \<Rightarrow> (out, Inl e)
                         | Inr True \<Rightarrow>
                             (case py_getitem cfg (PStr ''default_config'') of
                                Inl e \<Rightarrow> (out, Inl e)
                              | Inr dk \<Rightarrow>
                                  (out @ [''INFO: Using default configuration '' @ squote @
                                          py_str dk @ squote],
                                   py_getitem cfg dk))
                         | Inr False \<Rightarrow>
                             (out, Inl (IOError (''You must define a '' @ squote @
                                  ''default_config'' @ squote @ '' in you configuration file.''))))
                      else
                        (case py_first cfg of
                           Inl e \<Rightarrow> (out, Inl e)
                         | Inr k0 \<Rightarrow> (out, py_getitem cfg k0)))))"

text \<open>
  \<^verbatim>\<open>get_config\<close>, lines 64 to 77. \<open>config\<close> is the requested profile name and \<open>configfile\<close>
  the requested file, both as the command line gave them.
\<close>

definition get_config ::
  "world \<Rightarrow> string \<Rightarrow> string option \<Rightarrow> string option \<Rightarrow> string list \<times> (error + pyval)" where
  "get_config w dc config configfile =
     (case (case configfile of
              None \<Rightarrow> get_default_config w dc True
            | Some f \<Rightarrow> Inr (PStr f)) of
        Inl e \<Rightarrow> ([], Inl e)
      | Inr cf \<Rightarrow>
         (case config of
            Some key \<Rightarrow>
              (case cf of
                 PNone \<Rightarrow> ([], Inl (IOError
                    ''No (default) configuration file found or given. Check the doc.''))
               | PStr f \<Rightarrow> read_config w f (Some key)
               | _ \<Rightarrow> ([], Inl TypeError))
          | None \<Rightarrow>
              (case cf of
                 PNone \<Rightarrow> ([], Inr PNone)
               | PStr f \<Rightarrow> read_config w f None
               | _ \<Rightarrow> ([], Inl TypeError))))"

section \<open>The argument parser\<close>

text \<open>
  What \<^verbatim>\<open>parser.parse_args()\<close> can return for the parser of \<^verbatim>\<open>setup_parser\<close>, lines 80 to
  165: each option is a string or \<^verbatim>\<open>None\<close>, the three \<^verbatim>\<open>store_true\<close> options are flags,
  \<^verbatim>\<open>--jupyter\<close> always has a value. Parsing the argument vector is argparse's work.
\<close>

record cmdline =
  arg_config :: "string option"
  arg_configfile :: "string option"
  arg_host :: "string option"
  arg_username :: "string option"
  arg_workdir :: "string option"
  arg_jupyter :: string
  arg_mysetup :: "string option"
  arg_runbefore :: "string option"
  arg_runafter :: "string option"
  arg_compression :: bool
  arg_showconfig :: bool
  arg_tensorboard :: bool
  arg_logdir :: "string option"

text \<open>\<^verbatim>\<open>parser.parse_args(args=[])\<close>: the default of every option.\<close>

definition defaults :: cmdline where
  "defaults =
     \<lparr>arg_config = None, arg_configfile = None, arg_host = None, arg_username = None,
      arg_workdir = None, arg_jupyter = ''notebook'', arg_mysetup = None,
      arg_runbefore = None, arg_runafter = None, arg_compression = False,
      arg_showconfig = False, arg_tensorboard = False, arg_logdir = None\<rparr>"

text \<open>
  The \<^verbatim>\<open>Namespace\<close> object: the value of each attribute. The program reads and writes the
  thirteen attributes of the parser only; any other name is given \<^verbatim>\<open>None\<close>.
\<close>

type_synonym namespace = "string \<Rightarrow> pyval"

definition py_opt :: "string option \<Rightarrow> pyval" where
  "py_opt x = (case x of None \<Rightarrow> PNone | Some s \<Rightarrow> PStr s)"

definition namespace_of :: "cmdline \<Rightarrow> namespace" where
  "namespace_of c =
     (\<lambda>_. PNone)
       (''config'' := py_opt (arg_config c),
        ''configfile'' := py_opt (arg_configfile c),
        ''host'' := py_opt (arg_host c),
        ''username'' := py_opt (arg_username c),
        ''workdir'' := py_opt (arg_workdir c),
        ''jupyter'' := PStr (arg_jupyter c),
        ''mysetup'' := py_opt (arg_mysetup c),
        ''runbefore'' := py_opt (arg_runbefore c),
        ''runafter'' := py_opt (arg_runafter c),
        ''compression'' := PBool (arg_compression c),
        ''showconfig'' := PBool (arg_showconfig c),
        ''tensorboard'' := PBool (arg_tensorboard c),
        ''logdir'' := py_opt (arg_logdir c))"

text \<open>
  The attribute names \<^verbatim>\<open>args._get_kwargs()\<close> goes through: the thirteen options of the
  parser, sorted by name.
\<close>

definition option_names :: "string list" where
  "option_names =
     [''compression'', ''config'', ''configfile'', ''host'', ''jupyter'', ''logdir'',
      ''mysetup'', ''runafter'', ''runbefore'', ''showconfig'', ''tensorboard'',
      ''username'', ''workdir'']"

section \<open>The configuration overlay\<close>

text \<open>
  Lines 192 and 193, for one option: \<^verbatim>\<open>opt in config\<close> is evaluated first, the comparison
  with the default only when it holds.
\<close>

definition overlay_opt :: "pyval \<Rightarrow> namespace \<Rightarrow> namespace \<Rightarrow> string \<Rightarrow> error + namespace" where
  "overlay_opt config default_args args opt =
     (case py_contains config opt of
        Inl e \<Rightarrow> Inl e
      | Inr c \<Rightarrow>
          if c \<and> py_eq (args opt) (default_args opt)
          then (case py_getitem config (PStr opt) of
                  Inl e \<Rightarrow> Inl e
                | Inr v \<Rightarrow> Inr (args(opt := v)))
          else Inr args)"

text \<open>The loop of line 189, which changes \<open>args\<close> as it goes.\<close>

fun overlay_loop ::
  "pyval \<Rightarrow> namespace \<Rightarrow> string list \<Rightarrow> namespace \<Rightarrow> error + namespace" where
  "overlay_loop config default_args [] args = Inr args"
| "overlay_loop config default_args (opt # opts) args =
     (case overlay_opt config default_args args opt of
        Inl e \<Rightarrow> Inl e
      | Inr args' \<Rightarrow> overlay_loop config default_args opts args')"

text \<open>Lines 188 to 193.\<close>

definition merge_config :: "pyval \<Rightarrow> namespace \<Rightarrow> namespace \<Rightarrow> error + namespace" where
  "merge_config config default_args args =
     (if config \<noteq> PNone then overlay_loop config default_args option_names args
      else Inr args)"

section \<open>Building the command\<close>

text \<open>
  Lines 210 and 214: \<^verbatim>\<open>[run.replace("$", "\$") for run in ...]\<close>. In the Python literal
  \<^verbatim>\<open>"\$"\<close> the backslash stays, so each dollar becomes a backslash and a dollar. Only a
  string has \<^verbatim>\<open>replace\<close>.
\<close>

fun escape_runs :: "pyval list \<Rightarrow> error + string list" where
  "escape_runs [] = Inr []"
| "escape_runs (PStr run # runs) =
     (case escape_runs runs of
        Inl e \<Rightarrow> Inl e
      | Inr rs \<Rightarrow> Inr (py_replace CHR ''$'' (bslash @ ''$'') run # rs))"
| "escape_runs (_ # runs) = Inl AttributeError"

text \<open>Lines 209 to 215, for one of the two hook options: \<open>None\<close> stays \<open>None\<close>.\<close>

definition hooks :: "pyval \<Rightarrow> error + string list option" where
  "hooks v =
     (if v \<noteq> PNone then
        (case string_to_list v of
           Inl e \<Rightarrow> Inl e
         | Inr (PList runs) \<Rightarrow>
             (case escape_runs runs of Inl e \<Rightarrow> Inl e | Inr rs \<Rightarrow> Inr (Some rs))
         | Inr _ \<Rightarrow> Inl TypeError)
      else Inr None)"

text \<open>Lines 219 and 220: the two ports.\<close>

definition derive_ports :: "world \<Rightarrow> error + int \<times> int" where
  "derive_ports w =
     (case randint 1025 65634 (entropy w) of
        Inl e \<Rightarrow> Inl e
      | Inr port \<Rightarrow> (let port_tensorboard = port + 1 in Inr (port, port_tensorboard)))"

text \<open>
  The statements of the script, each under the name of the variable that holds it in the
  source (lines 226 to 314). In a Python literal \<^verbatim>\<open>\$\<close>, \<^verbatim>\<open>\`\<close> and \<^verbatim>\<open>\/\<close> keep their
  backslash, \<^verbatim>\<open>\\\<close> is one backslash and \<^verbatim>\<open>\n\<close> a line feed.
\<close>

definition ssh_options :: "namespace \<Rightarrow> string" where
  "ssh_options args =
     (let ssh_options = ''-'';
          ssh_options = ssh_options @ ''Y'';
          ssh_options = ssh_options @ ''tt''
      in if py_truthy (args ''compression'') then ssh_options @ ''C'' else ssh_options)"

definition tunnel :: "int \<Rightarrow> string" where
  "tunnel port = ''-L 20001:localhost:'' @ dec_int port"

definition tunnel2 :: "namespace \<Rightarrow> int \<Rightarrow> string" where
  "tunnel2 args port_tensorboard =
     (if py_truthy (args ''tensorboard'')
      then ''-L 20002:localhost:'' @ dec_int port_tensorboard else [])"

definition ssh_cmd :: "namespace \<Rightarrow> int \<Rightarrow> int \<Rightarrow> string" where
  "ssh_cmd args port port_tensorboard =
     ''ssh '' @ ssh_options args @ '' '' @ tunnel port @ '' '' @
     tunnel2 args port_tensorboard @ '' '' @ py_str (args ''host'') @ '' << EOF''"

definition cd_cmd :: "namespace \<Rightarrow> string" where
  "cd_cmd args = ''cd '' @ py_str (args ''workdir'')"

definition source_cmd :: "namespace \<Rightarrow> string" where
  "source_cmd args = ''source '' @ py_str (args ''mysetup'')"

definition jupyter_cmd :: "namespace \<Rightarrow> int \<Rightarrow> string" where
  "jupyter_cmd args port =
     ''jupyter '' @ py_str (args ''jupyter'') @ '' --no-browser --port='' @ dec_int port @
     '' --ip=127.0.0.1 &''"

definition tensorboard_cmd :: "namespace \<Rightarrow> int \<Rightarrow> string" where
  "tensorboard_cmd args port_tensorboard =
     ''tensorboard --logdir='' @ py_str (args ''logdir'') @ '' --port='' @
     dec_int port_tensorboard @ '' &''"

definition list_cmd :: string where
  "list_cmd = ''export servers='' @ bslash @ ''`jupyter notebook list'' @ bslash @ ''`''"

definition wait_cmd :: "int \<Rightarrow> string" where
  "wait_cmd port =
     ''while [[ '' @ bslash @ ''$servers != *'' @ squote @ ''127.0.0.1:'' @ dec_int port @
     squote @ ''* ]];do sleep 1;servers='' @ bslash @ ''`jupyter notebook list'' @ bslash @
     ''`;echo waiting...;done''"

definition server_cmd :: "int \<Rightarrow> string" where
  "server_cmd port =
     ''export servers='' @ bslash @ ''`jupyter notebook list | grep '' @ squote @
     ''127.0.0.1:'' @ dec_int port @ squote @ bslash @ ''`''"

definition token_cmd :: string where
  "token_cmd =
     ''export TOKEN='' @ bslash @ ''`echo '' @ bslash @ ''$servers | sed '' @ squote @
     ''s/'' @ bslash @ ''//'' @ bslash @ ''n/g'' @ squote @ '' | grep token | sed '' @
     squote @ ''s/ /'' @ bslash @ ''n/g'' @ squote @ '' | grep token '' @ bslash @ ''`''"

definition shellprint_cmd :: string where
  "shellprint_cmd =
     ''printf '' @ squote @ bslash @
     ''n Copy/paste this URL into your browser to run the notebook localy '' @
     [CHR 0x0A] @ bslash @ ''x1B[01;92m       '' @ squote @ ''http://localhost:20001/'' @
     bslash @ ''$TOKEN'' @ squote @ '' '' @ bslash @ ''x1B[0m'' @ bslash @ ''n'' @ bslash @
     ''n'' @ squote"

definition tensorboard_print_cmd :: string where
  "tensorboard_print_cmd =
     ''printf '' @ squote @ ''tensorboard'' @ bslash @ ''x1B[01;92m       '' @ squote @
     ''http://localhost:20002/'' @ squote @ bslash @ ''x1B[0m'' @ bslash @ ''n'' @ bslash @
     ''n'' @ squote"

definition kill_jupyter_cmd :: string where
  "kill_jupyter_cmd =
     ''kill -9 `ps | grep jupyter | awk '' @ squote @ ''{print $1}'' @ squote @ ''`''"

definition kill_tensorboard_cmd :: string where
  "kill_tensorboard_cmd =
     ''kill -9 `ps | grep tensorboard | awk '' @ squote @ ''{print $1}'' @ squote @ ''`''"

text \<open>
  Lines 223 to 317: the list of statements, appended to in the order of the source.
  \<open>runbefore\<close> and \<open>runafter\<close> are the two hook options after lines 209 to 215; an
  \<^verbatim>\<open>if\<close> on one of them holds for a list that is not empty.
\<close>

definition cmd_list ::
  "namespace \<Rightarrow> string list option \<Rightarrow> string list option \<Rightarrow> int \<Rightarrow> int \<Rightarrow> string list" where
  "cmd_list args runbefore runafter port port_tensorboard =
     (let cmds = [];
          cmds = cmds @ [ssh_cmd args port port_tensorboard];
          cmds = (if args ''workdir'' \<noteq> PNone then cmds @ [cd_cmd args] else cmds);
          cmds =
            (case runbefore of
               Some runs \<Rightarrow> if runs \<noteq> [] then cmds @ runs else cmds
             | None \<Rightarrow> cmds);
          cmds = (if args ''mysetup'' \<noteq> PNone then cmds @ [source_cmd args] else cmds);
          cmds =
            (case runafter of
               Some runs \<Rightarrow> if runs \<noteq> [] then cmds @ runs else cmds
             | None \<Rightarrow> cmds);
          cmds = cmds @ [jupyter_cmd args port];
          cmds =
            (if py_truthy (args ''tensorboard'')
             then cmds @ [tensorboard_cmd args port_tensorboard] else cmds);
          cmds = cmds @ [list_cmd];
          cmds = cmds @ [wait_cmd port];
          cmds = cmds @ [server_cmd port];
          cmds = cmds @ [token_cmd];
          cmds = cmds @ [shellprint_cmd];
          cmds =
            (if py_truthy (args ''tensorboard'') then cmds @ [tensorboard_print_cmd] else cmds);
          cmds = cmds @ [''fg''];
          cmds = cmds @ [kill_jupyter_cmd];
          cmds =
            (if py_truthy (args ''tensorboard'') then cmds @ [kill_tensorboard_cmd] else cmds);
          cmds = cmds @ [''EOF'']
      in cmds)"

text \<open>
  Lines 195 to 319: the two checks, the user name put before the host (lines 200 and
  201), the hooks, the ports, the statements. The result is the statement list and the
  text handed to the shell, the statements joined by line feeds.
\<close>

definition with_username :: "namespace \<Rightarrow> namespace" where
  "with_username args =
     (if args ''username'' \<noteq> PNone
      then args(''host'' := PStr (py_str (args ''username'') @ ''@'' @ py_str (args ''host'')))
      else args)"

definition build_cmd :: "world \<Rightarrow> namespace \<Rightarrow> error + string list \<times> string" where
  "build_cmd w args =
     (if args ''host'' = PNone
      then Inl (ValueError ''You must give a valide host name (--host)'')
      else
        let args = with_username args
        in if py_truthy (args ''tensorboard'') \<and> args ''logdir'' = PNone
           then Inl (ValueError ''You must provide a logdir path to TensorBoard (--logdir)'')
           else
             (case hooks (args ''runbefore'') of
                Inl e \<Rightarrow> Inl e
              | Inr runbefore \<Rightarrow>
                 (case hooks (args ''runafter'') of
                    Inl e \<Rightarrow> Inl e
                  | Inr runafter \<Rightarrow>
                     (case derive_ports w of
                        Inl e \<Rightarrow> Inl e
                      | Inr (port, port_tensorboard) \<Rightarrow>
                          (let cmds = cmd_list args runbefore runafter port port_tensorboard;
                               cmd = py_join [CHR 0x0A] cmds
                           in Inr (cmds, cmd))))))"

section \<open>The program\<close>

text \<open>
  How a run ends: \<^verbatim>\<open>main\<close> returns, \<^verbatim>\<open>sys.exit(n)\<close> is called, or an exception is not caught.
  A run is what it printed, the commands it handed to the shell, each with the exit status
  the shell gave back, and how it ended.
\<close>

datatype outcome = Returned | SysExit int | Raised error

record run =
  stdout :: "string list"
  spawned :: "(string \<times> int) list"
  outcome :: outcome

text \<open>The exit status of the interpreter: 1 after an uncaught exception.\<close>

definition exit_status :: "run \<Rightarrow> int" where
  "exit_status r = (case outcome r of Returned \<Rightarrow> 0 | SysExit n \<Rightarrow> n | Raised e \<Rightarrow> 1)"

text \<open>Lines 174 to 184, the body of \<^verbatim>\<open>if args.showconfig\<close>.\<close>

definition show_config :: "world \<Rightarrow> string \<Rightarrow> run" where
  "show_config w dc =
     (case get_default_config w dc True of
        Inl e \<Rightarrow> \<lparr>stdout = [], spawned = [], outcome = Raised e\<rparr>
      | Inr PNone \<Rightarrow>
          \<lparr>stdout = [''Error: No default configuration file found.''], spawned = [],
           outcome = SysExit 0\<rparr>
      | Inr (PStr config) \<Rightarrow>
          (case open_read w config of
             Inl e \<Rightarrow> \<lparr>stdout = [], spawned = [], outcome = Raised e\<rparr>
           | Inr text \<Rightarrow>
               \<lparr>stdout = [''Your default configuration file contains the following '' @
                           ''configuration(s).'', text],
                spawned = [], outcome = SysExit 0\<rparr>)
      | Inr _ \<Rightarrow> \<lparr>stdout = [], spawned = [], outcome = Raised TypeError\<rparr>)"

text \<open>
  \<^verbatim>\<open>main\<close>, lines 168 to 322. The value \<^verbatim>\<open>subprocess.call\<close> returns, the exit status of
  the shell, is not bound to anything in the source.
\<close>

definition main :: "world \<Rightarrow> string \<Rightarrow> cmdline \<Rightarrow> run" where
  "main w dc cl =
     (let args = namespace_of cl;
          default_args = namespace_of defaults
      in if arg_showconfig cl then show_config w dc
         else
           (case get_config w dc (arg_config cl) (arg_configfile cl) of
              (out, Inl e) \<Rightarrow> \<lparr>stdout = out, spawned = [], outcome = Raised e\<rparr>
            | (out, Inr config) \<Rightarrow>
               (case merge_config config default_args args of
                  Inl e \<Rightarrow> \<lparr>stdout = out, spawned = [], outcome = Raised e\<rparr>
                | Inr args \<Rightarrow>
                   (case build_cmd w args of
                      Inl e \<Rightarrow> \<lparr>stdout = out, spawned = [], outcome = Raised e\<rparr>
                    | Inr (cmds, cmd) \<Rightarrow>
                        \<lparr>stdout = out, spawned = [(cmd, shell w cmd)],
                         outcome = Returned\<rparr>))))"

text \<open>The script run as a program: line 14, then \<^verbatim>\<open>main()\<close>.\<close>

definition program :: "world \<Rightarrow> cmdline \<Rightarrow> run" where
  "program w cl =
     (case DEFAULT_CONFIG w of
        Inl e \<Rightarrow> \<lparr>stdout = [], spawned = [], outcome = Raised e\<rparr>
      | Inr dc \<Rightarrow> main w dc cl)"

section \<open>Notions the properties are stated with\<close>

text \<open>The values the parser can produce: \<^verbatim>\<open>None\<close>, a flag or a string.\<close>

fun is_cli_value :: "pyval \<Rightarrow> bool" where
  "is_cli_value PNone = True"
| "is_cli_value (PBool b) = True"
| "is_cli_value (PStr s) = True"
| "is_cli_value _ = False"

text \<open>
  A backslash stands right before every dollar of a command. This is what the replacement
  of lines 210 and 214 brings about; it does not say that the dollars are quoted.
\<close>

definition backslash_before_dollars :: "string \<Rightarrow> bool" where
  "backslash_before_dollars r =
     (\<forall>i<length r. r ! i = CHR ''$'' \<longrightarrow> 0 < i \<and> r ! (i - 1) = backslash)"

text \<open>
  How the local shell reads a line of the here-document. The delimiter of line 238,
  \<^verbatim>\<open><< EOF\<close>, is not quoted, so the shell expands the body before \<^verbatim>\<open>ssh\<close> sees it: read
  from the left, a backslash quotes a dollar, a backtick or a backslash that follows it,
  and the two are taken together; a backslash before anything else stands for itself; a
  dollar that is reached in any other way is expanded. \<open>heredoc_dollars_quoted\<close> holds when
  every dollar of the line is quoted, \<open>heredoc_dollars_live\<close> when none is.
\<close>

definition backtick :: char where
  "backtick = CHR 0x60"

fun heredoc_dollars_quoted :: "string \<Rightarrow> bool" where
  "heredoc_dollars_quoted [] = True"
| "heredoc_dollars_quoted [c] = (c \<noteq> CHR ''$'')"
| "heredoc_dollars_quoted (c # d # s) =
     (if c = backslash \<and> (d = backslash \<or> d = CHR ''$'' \<or> d = backtick)
      then heredoc_dollars_quoted s
      else c \<noteq> CHR ''$'' \<and> heredoc_dollars_quoted (d # s))"

fun heredoc_dollars_live :: "string \<Rightarrow> bool" where
  "heredoc_dollars_live [] = True"
| "heredoc_dollars_live [c] = True"
| "heredoc_dollars_live (c # d # s) =
     (if c = backslash \<and> (d = backslash \<or> d = backtick) then heredoc_dollars_live s
      else if c = backslash \<and> d = CHR ''$'' then False
      else heredoc_dollars_live (d # s))"


text \<open>The statements a hook option contributes: none when the option is \<^verbatim>\<open>None\<close>.\<close>

definition hook_lines :: "string list option \<Rightarrow> string list" where
  "hook_lines runs = (case runs of None \<Rightarrow> [] | Some rs \<Rightarrow> rs)"

text \<open>
  The order the specification fixes for the script (section 4.3, steps 1 to 13), written
  as one concatenation: header, working directory, pre-hooks, setup file, post-hooks,
  Jupyter, TensorBoard, readiness poll, token extraction, URL print, foreground, cleanup,
  terminator. \<open>cmd_list\<close> above is the source's construction; the two are compared below.
\<close>

definition ordered_script ::
  "namespace \<Rightarrow> string list option \<Rightarrow> string list option \<Rightarrow> int \<Rightarrow> int \<Rightarrow> string list" where
  "ordered_script args runbefore runafter port port_tensorboard =
     [ssh_cmd args port port_tensorboard] @
     (if args ''workdir'' \<noteq> PNone then [cd_cmd args] else []) @
     hook_lines runbefore @
     (if args ''mysetup'' \<noteq> PNone then [source_cmd args] else []) @
     hook_lines runafter @
     [jupyter_cmd args port] @
     (if py_truthy (args ''tensorboard'') then [tensorboard_cmd args port_tensorboard] else []) @
     [list_cmd, wait_cmd port] @
     [server_cmd port, token_cmd] @
     [shellprint_cmd] @
     (if py_truthy (args ''tensorboard'') then [tensorboard_print_cmd] else []) @
     [''fg''] @
     [kill_jupyter_cmd] @
     (if py_truthy (args ''tensorboard'') then [kill_tensorboard_cmd] else []) @
     [''EOF'']"

text \<open>The first word of a statement.\<close>

definition first_word :: "string \<Rightarrow> string" where
  "first_word s = takeWhile (\<lambda>c. c \<noteq> CHR '' '') s"

section \<open>Reference inputs\<close>

text \<open>
  A home directory with a default configuration file of two profiles and a
  \<^verbatim>\<open>default_config\<close> entry, and three more files: the same two profiles without the
  entry, a single profile, and an empty mapping. \<open>demo_yaml\<close> is the parser on these four
  texts. The shell answers every command with status 3.
\<close>

definition demo_profiles :: "(string \<times> pyval) list" where
  "demo_profiles =
     [(''a'', PDict [(''host'', PStr ''alpha''), (''workdir'', PStr ''/work'')]),
      (''b'', PDict [(''host'', PStr ''beta'')])]"

definition demo_yaml :: "string \<Rightarrow> error + pyval" where
  "demo_yaml t =
     (if t = ''{a: {host: alpha, workdir: /work}, b: {host: beta}, default_config: a}''
        then Inr (PDict (demo_profiles @ [(''default_config'', PStr ''a'')]))
      else if t = ''{a: {host: alpha, workdir: /work}, b: {host: beta}}''
        then Inr (PDict demo_profiles)
      else if t = ''{only: {host: gamma}}''
        then Inr (PDict [(''only'', PDict [(''host'', PStr ''gamma'')])])
      else if t = ''{}'' then Inr (PDict [])
      else Inl YAMLError)"

definition demo_files :: "string \<Rightarrow> string option" where
  "demo_files =
     [''/home/u/.stackyter-config.yaml'' \<mapsto>
        ''{a: {host: alpha, workdir: /work}, b: {host: beta}, default_config: a}'',
      ''/two.yaml'' \<mapsto> ''{a: {host: alpha, workdir: /work}, b: {host: beta}}'',
      ''/one.yaml'' \<mapsto> ''{only: {host: gamma}}'',
      ''/empty.yaml'' \<mapsto> ''{}'']"

definition demo_world :: world where
  "demo_world =
     \<lparr>getenv = [''HOME'' \<mapsto> ''/home/u''],
      path_exists = (\<lambda>p. demo_files p \<noteq> None),
      file_text = demo_files,
      yaml_load = demo_yaml,
      entropy = 70000,
      shell = (\<lambda>cmd. 3)\<rparr>"

text \<open>The same machine with \<^verbatim>\<open>STACKYTERCONFIG\<close> set, to a file that is there and to one that is not.\<close>

definition env_world :: "string \<Rightarrow> world" where
  "env_world path =
     demo_world\<lparr>getenv := [''HOME'' \<mapsto> ''/home/u'', ''STACKYTERCONFIG'' \<mapsto> path]\<rparr>"

text \<open>A machine with no configuration file at all.\<close>

definition bare_world :: world where
  "bare_world =
     \<lparr>getenv = [''HOME'' \<mapsto> ''/home/u''],
      path_exists = (\<lambda>p. False),
      file_text = (\<lambda>p. None),
      yaml_load = (\<lambda>t. Inl YAMLError),
      entropy = 70000,
      shell = (\<lambda>cmd. 3)\<rparr>"

text \<open>\<^verbatim>\<open>stackyter.py --host cli-host\<close>, and a command line that sets every part of the script.\<close>

definition host_cmdline :: cmdline where
  "host_cmdline = defaults\<lparr>arg_host := Some ''cli-host''\<rparr>"

definition full_cmdline :: cmdline where
  "full_cmdline =
     defaults\<lparr>arg_host := Some ''cli-host'', arg_username := Some ''me'',
       arg_workdir := Some ''/work'', arg_mysetup := Some ''setup.sh'',
       arg_runbefore := Some ''echo a,echo b'', arg_runafter := Some ''echo $HOME'',
       arg_tensorboard := True, arg_logdir := Some ''/logs''\<rparr>"

text \<open>\<^verbatim>\<open>--host ""\<close>, \<^verbatim>\<open>--host cli-host --tensorboard\<close> and \<^verbatim>\<open>--showconfig\<close>.\<close>

definition empty_host_cmdline :: cmdline where
  "empty_host_cmdline = defaults\<lparr>arg_host := Some []\<rparr>"

definition tensorboard_cmdline :: cmdline where
  "tensorboard_cmdline = defaults\<lparr>arg_host := Some ''cli-host'', arg_tensorboard := True\<rparr>"

definition showconfig_cmdline :: cmdline where
  "showconfig_cmdline = defaults\<lparr>arg_showconfig := True\<rparr>"

text \<open>A pre-hook whose dollar is already quoted: the command \<^verbatim>\<open>echo \$HOME\<close>.\<close>

definition quoted_hook_cmdline :: cmdline where
  "quoted_hook_cmdline =
     defaults\<lparr>arg_host := Some ''cli-host'',
       arg_runbefore := Some (''echo '' @ bslash @ ''$HOME'')\<rparr>"

section \<open>Facts about the built-in operations\<close>

lemma map_of_in_keys: "map_of d k = Some v \<Longrightarrow> k \<in> fst ` set d"
  by (metis domI dom_map_of_conv_image_fst)

lemma map_of_notin_keys: "map_of d k = None \<Longrightarrow> k \<notin> fst ` set d"
  by (simp add: map_of_eq_None_iff)

lemma py_eq_cli_values: "is_cli_value a \<Longrightarrow> is_cli_value b \<Longrightarrow> py_eq a b = (a = b)"
  by (cases a; cases b) auto

lemma namespace_of_cli: "is_cli_value (namespace_of c opt)"
  by (simp add: namespace_of_def py_opt_def split: option.splits)

lemma py_eq_namespace:
  "py_eq (namespace_of c opt) (namespace_of c' opt) = (namespace_of c opt = namespace_of c' opt)"
  by (rule py_eq_cli_values) (rule namespace_of_cli)+

lemma distinct_option_names: "distinct option_names"
  by (simp add: option_names_def)

lemma load_yaml_demo:
  "load_yaml demo_world ''/two.yaml'' = Inr (PDict demo_profiles)"
  "load_yaml demo_world ''/one.yaml'' = Inr (PDict [(''only'', PDict [(''host'', PStr ''gamma'')])])"
  "load_yaml demo_world ''/empty.yaml'' = Inr (PDict [])"
  "load_yaml demo_world ''/home/u/.stackyter-config.yaml'' =
     Inr (PDict (demo_profiles @ [(''default_config'', PStr ''a'')]))"
  by (simp_all add: load_yaml_def open_read_def demo_world_def demo_files_def demo_yaml_def)

section \<open>Precedence in the overlay\<close>

text \<open>
  With a mapping as profile, one step of the loop never fails, and the loop over distinct
  names computes each option on its own: the profile's value when the option is a key of
  the profile and still equal to its default, the old value otherwise.
\<close>

lemma overlay_opt_dict:
  "overlay_opt (PDict d) dflt args opt =
     Inr (if opt \<in> fst ` set d \<and> py_eq (args opt) (dflt opt)
          then args(opt := the (map_of d opt)) else args)"
proof (cases "map_of d opt")
  case None
  then show ?thesis
    using map_of_notin_keys[of d opt] by (simp add: overlay_opt_def)
next
  case (Some v)
  then show ?thesis
    using map_of_in_keys[of d opt v] by (simp add: overlay_opt_def)
qed

lemma overlay_loop_dict:
  "distinct opts \<Longrightarrow>
   overlay_loop (PDict d) dflt opts args =
     Inr (\<lambda>opt. if opt \<in> set opts \<and> opt \<in> fst ` set d \<and> py_eq (args opt) (dflt opt)
                then the (map_of d opt) else args opt)"
proof (induction opts arbitrary: args)
  case Nil
  then show ?case by simp
next
  case (Cons o1 opts)
  then have d: "distinct opts" and n: "o1 \<notin> set opts" by simp_all
  show ?case
    by (simp add: overlay_opt_dict Cons.IH[OF d] fun_eq_iff) (use n in auto)
qed

text \<open>Whatever the profile is, a value that differs from its default survives the loop.\<close>

lemma overlay_opt_keeps:
  "overlay_opt config dflt args o1 = Inr args' \<Longrightarrow>
   \<not> py_eq (args opt) (dflt opt) \<Longrightarrow> args' opt = args opt"
  by (auto simp: overlay_opt_def split: sum.splits if_splits)

lemma overlay_loop_keeps:
  "overlay_loop config dflt opts args = Inr args' \<Longrightarrow>
   \<not> py_eq (args opt) (dflt opt) \<Longrightarrow> args' opt = args opt"
proof (induction opts arbitrary: args)
  case Nil
  then show ?case by simp
next
  case (Cons o1 opts)
  from Cons.prems(1) obtain mid where
    m: "overlay_opt config dflt args o1 = Inr mid" and
    r: "overlay_loop config dflt opts mid = Inr args'"
    by (auto split: sum.splits)
  have k: "mid opt = args opt"
    using overlay_opt_keeps[OF m Cons.prems(2)] .
  with Cons.IH[OF r] Cons.prems(2) show ?case by simp
qed

text \<open>
  Claim C1 (overlay precedence). For an option \<open>opt\<close> of the parser, the command line
  \<open>cl\<close> and the defaults baseline: whatever the selected profile \<open>config\<close> is, when the
  overlay returns and the parsed value of \<open>opt\<close> differs from its default, the merged
  value is the parsed value; and for a profile that is a mapping \<open>d\<close> the overlay always
  returns, keeps a parsed value that differs from the default, and gives the profile's
  value \<open>v\<close> to an option that is at its default and a key of the profile.
\<close>

theorem overlay_precedence:
  assumes "opt \<in> set option_names"
  shows "(merge_config config (namespace_of defaults) (namespace_of cl) = Inr args' \<and>
          namespace_of cl opt \<noteq> namespace_of defaults opt \<longrightarrow>
            args' opt = namespace_of cl opt) \<and>
         (\<exists>merged. merge_config (PDict d) (namespace_of defaults) (namespace_of cl) = Inr merged \<and>
            (namespace_of cl opt \<noteq> namespace_of defaults opt \<longrightarrow>
               merged opt = namespace_of cl opt) \<and>
            (namespace_of cl opt = namespace_of defaults opt \<and> map_of d opt = Some v \<longrightarrow>
               merged opt = v))"
proof (intro conjI impI)
  assume h: "merge_config config (namespace_of defaults) (namespace_of cl) = Inr args' \<and>
             namespace_of cl opt \<noteq> namespace_of defaults opt"
  then have ne: "\<not> py_eq (namespace_of cl opt) (namespace_of defaults opt)"
    by (simp add: py_eq_namespace)
  show "args' opt = namespace_of cl opt"
  proof (cases "config = PNone")
    case True
    with h show ?thesis by (simp add: merge_config_def)
  next
    case False
    with h have "overlay_loop config (namespace_of defaults) option_names (namespace_of cl) = Inr args'"
      by (simp add: merge_config_def)
    from overlay_loop_keeps[OF this ne] show ?thesis .
  qed
next
  let ?m = "\<lambda>o1. if o1 \<in> set option_names \<and> o1 \<in> fst ` set d \<and>
                      py_eq (namespace_of cl o1) (namespace_of defaults o1)
                   then the (map_of d o1) else namespace_of cl o1"
  have m: "merge_config (PDict d) (namespace_of defaults) (namespace_of cl) = Inr ?m"
    by (simp add: merge_config_def overlay_loop_dict[OF distinct_option_names])
  have a: "namespace_of cl opt \<noteq> namespace_of defaults opt \<longrightarrow> ?m opt = namespace_of cl opt"
    by (simp add: py_eq_namespace)
  have b: "namespace_of cl opt = namespace_of defaults opt \<and> map_of d opt = Some v \<longrightarrow> ?m opt = v"
    using assms map_of_in_keys[of d opt v] by (auto simp: py_eq_namespace)
  from m a b
  show "\<exists>merged. merge_config (PDict d) (namespace_of defaults) (namespace_of cl) = Inr merged \<and>
            (namespace_of cl opt \<noteq> namespace_of defaults opt \<longrightarrow>
               merged opt = namespace_of cl opt) \<and>
            (namespace_of cl opt = namespace_of defaults opt \<and> map_of d opt = Some v \<longrightarrow>
               merged opt = v)"
    by blast
qed

text \<open>
  With \<^verbatim>\<open>--host cli-host\<close> and a profile that gives a host and a working directory, the host
  of the command line stays and the working directory comes from the profile.
\<close>

theorem overlay_precedence_witness:
  "''host'' \<in> set option_names \<and> ''workdir'' \<in> set option_names \<and>
   namespace_of host_cmdline ''host'' \<noteq> namespace_of defaults ''host'' \<and>
   namespace_of host_cmdline ''workdir'' = namespace_of defaults ''workdir'' \<and>
   (\<exists>merged.
      merge_config (PDict [(''host'', PStr ''alpha''), (''workdir'', PStr ''/work'')])
        (namespace_of defaults) (namespace_of host_cmdline) = Inr merged \<and>
      merged ''host'' = PStr ''cli-host'' \<and> merged ''workdir'' = PStr ''/work'')"
proof -
  let ?d = "[(''host'', PStr ''alpha''), (''workdir'', PStr ''/work'')]"
  have o1: "''host'' \<in> set option_names" and o2: "''workdir'' \<in> set option_names"
    by (simp_all add: option_names_def)
  have n1: "namespace_of host_cmdline ''host'' \<noteq> namespace_of defaults ''host''"
    and v1: "namespace_of host_cmdline ''host'' = PStr ''cli-host''"
    and n2: "namespace_of host_cmdline ''workdir'' = namespace_of defaults ''workdir''"
    by (simp_all add: namespace_of_def host_cmdline_def defaults_def py_opt_def)
  have w: "map_of ?d ''workdir'' = Some (PStr ''/work'')" by simp
  from overlay_precedence[OF o2, where cl = host_cmdline and d = ?d and v = "PStr ''/work''",
      THEN conjunct2] n2 w
  obtain merged where
    m: "merge_config (PDict ?d) (namespace_of defaults) (namespace_of host_cmdline) = Inr merged"
    and h2: "merged ''workdir'' = PStr ''/work''"
    by auto
  from overlay_precedence[OF o1, where config = "PDict ?d" and cl = host_cmdline
      and args' = merged, THEN conjunct1] m n1 v1
  have h1: "merged ''host'' = PStr ''cli-host''" by simp
  from o1 o2 n1 n2 m h1 h2 show ?thesis by blast
qed

section \<open>Selecting the profile\<close>

text \<open>
  Claim C2 (profile selection). For a file that parses to the mapping \<open>d\<close>: a requested
  name \<open>k\<close> that is a key yields that profile; a requested name that is no key fails with
  the \<^verbatim>\<open>IOError\<close> that names it; with no requested name, a file of more than one entry
  whose \<^verbatim>\<open>default_config\<close> names the key \<open>a\<close> yields the profile \<open>a\<close>, a file of more than
  one entry without \<^verbatim>\<open>default_config\<close> fails with the \<^verbatim>\<open>IOError\<close> asking for one, and a
  file of exactly one entry yields that entry.
\<close>

theorem read_config_selection:
  assumes "load_yaml w f = Inr (PDict d)"
  shows "(map_of d k = Some p \<longrightarrow> snd (read_config w f (Some k)) = Inr p) \<and>
         (map_of d k = None \<longrightarrow>
            snd (read_config w f (Some k)) =
              Inl (IOError (''Configuration `'' @ k @
                            ''` does not exist. Check your default file.''))) \<and>
         (1 < length d \<and> map_of d ''default_config'' = Some (PStr a) \<and> map_of d a = Some p \<longrightarrow>
            snd (read_config w f None) = Inr p) \<and>
         (1 < length d \<and> map_of d ''default_config'' = None \<longrightarrow>
            snd (read_config w f None) =
              Inl (IOError (''You must define a '' @ squote @ ''default_config'' @ squote @
                            '' in you configuration file.''))) \<and>
         (d = [(k, p)] \<longrightarrow> snd (read_config w f None) = Inr p)"
proof (intro conjI impI)
  assume "map_of d k = Some p"
  then show "snd (read_config w f (Some k)) = Inr p"
    using assms map_of_in_keys[of d k p] by (simp add: read_config_def)
next
  assume "map_of d k = None"
  then show "snd (read_config w f (Some k)) =
      Inl (IOError (''Configuration `'' @ k @ ''` does not exist. Check your default file.''))"
    using assms map_of_notin_keys[of d k] by (simp add: read_config_def)
next
  assume h: "1 < length d \<and> map_of d ''default_config'' = Some (PStr a) \<and> map_of d a = Some p"
  then show "snd (read_config w f None) = Inr p"
    using assms map_of_in_keys[of d "''default_config''" "PStr a"] by (simp add: read_config_def)
next
  assume h: "1 < length d \<and> map_of d ''default_config'' = None"
  then show "snd (read_config w f None) =
      Inl (IOError (''You must define a '' @ squote @ ''default_config'' @ squote @
                    '' in you configuration file.''))"
    using assms map_of_notin_keys[of d "''default_config''"] by (simp add: read_config_def)
next
  assume "d = [(k, p)]"
  then show "snd (read_config w f None) = Inr p"
    using assms by (simp add: read_config_def)
qed

text \<open>
  On the reference files: profile \<open>b\<close> on request, the error for the unknown name \<open>c\<close>,
  profile \<open>a\<close> through \<^verbatim>\<open>default_config\<close>, the error of the file without it, and the
  sole entry of the one-profile file.
\<close>

theorem read_config_selection_witness:
  "load_yaml demo_world ''/home/u/.stackyter-config.yaml'' =
     Inr (PDict (demo_profiles @ [(''default_config'', PStr ''a'')])) \<and>
   snd (read_config demo_world ''/home/u/.stackyter-config.yaml'' (Some ''b'')) =
     Inr (PDict [(''host'', PStr ''beta'')]) \<and>
   snd (read_config demo_world ''/home/u/.stackyter-config.yaml'' (Some ''c'')) =
     Inl (IOError ''Configuration `c` does not exist. Check your default file.'') \<and>
   snd (read_config demo_world ''/home/u/.stackyter-config.yaml'' None) =
     Inr (PDict [(''host'', PStr ''alpha''), (''workdir'', PStr ''/work'')]) \<and>
   snd (read_config demo_world ''/two.yaml'' None) =
     Inl (IOError (''You must define a '' @ squote @ ''default_config'' @ squote @
                   '' in you configuration file.'')) \<and>
   snd (read_config demo_world ''/one.yaml'' None) = Inr (PDict [(''host'', PStr ''gamma'')])"
proof -
  let ?home = "''/home/u/.stackyter-config.yaml''"
  let ?a = "PDict [(''host'', PStr ''alpha''), (''workdir'', PStr ''/work'')]"
  let ?b = "PDict [(''host'', PStr ''beta'')]"
  let ?g = "PDict [(''host'', PStr ''gamma'')]"
  note full = read_config_selection[OF load_yaml_demo(4)]
  have "snd (read_config demo_world ?home (Some ''b'')) = Inr ?b"
    using full[where k = "''b''" and p = ?b] by (simp add: demo_profiles_def)
  moreover have "snd (read_config demo_world ?home (Some ''c'')) =
      Inl (IOError ''Configuration `c` does not exist. Check your default file.'')"
    using full[where k = "''c''"] by (simp add: demo_profiles_def)
  moreover have "snd (read_config demo_world ?home None) = Inr ?a"
    using full[where a = "''a''" and p = ?a] by (simp add: demo_profiles_def)
  moreover have "snd (read_config demo_world ''/two.yaml'' None) =
      Inl (IOError (''You must define a '' @ squote @ ''default_config'' @ squote @
                    '' in you configuration file.''))"
    using read_config_selection[OF load_yaml_demo(1)]
    by (simp add: demo_profiles_def)
  moreover have "snd (read_config demo_world ''/one.yaml'' None) = Inr ?g"
    using read_config_selection[OF load_yaml_demo(2), where k = "''only''" and p = ?g] by simp
  ultimately show ?thesis using load_yaml_demo(4) by simp
qed

text \<open>
  Claim C10 (sole-entry lookup). With no requested name and a file of at most one entry,
  the result is the value of the first entry; for the empty mapping \<^verbatim>\<open>list(config)[0]\<close>
  indexes an empty list and the run ends in an \<^verbatim>\<open>IndexError\<close>, which is neither a profile
  nor one of the resolver's \<^verbatim>\<open>IOError\<close> messages.
\<close>

theorem read_config_sole_entry:
  assumes "load_yaml w f = Inr (PDict d)" and "\<not> 1 < length d"
  shows "snd (read_config w f None) =
           (case d of [] \<Rightarrow> Inl IndexError | (k, v) # rest \<Rightarrow> Inr v)"
  using assms by (cases d) (auto simp: read_config_def)

theorem read_config_sole_entry_witness:
  "load_yaml demo_world ''/empty.yaml'' = Inr (PDict []) \<and>
   \<not> 1 < length ([] :: (string \<times> pyval) list) \<and>
   snd (read_config demo_world ''/empty.yaml'' None) = Inl IndexError \<and>
   load_yaml demo_world ''/one.yaml'' = Inr (PDict [(''only'', PDict [(''host'', PStr ''gamma'')])]) \<and>
   snd (read_config demo_world ''/one.yaml'' None) = Inr (PDict [(''host'', PStr ''gamma'')])"
  using read_config_sole_entry[OF load_yaml_demo(3)] read_config_sole_entry[OF load_yaml_demo(2)]
    load_yaml_demo(2,3)
  by simp

section \<open>The ports\<close>

text \<open>
  Claim C6 (port pair). Whatever the state of the random generator, the two ports are
  derived, the TensorBoard port is the Jupyter port plus one, and the Jupyter port is at
  least 1025 and below 65634.
\<close>

theorem derived_ports:
  "\<exists>port. derive_ports w = Inr (port, port + 1) \<and> 1025 \<le> port \<and> port < 65634"
  by (simp add: derive_ports_def randint_def Let_def)

section \<open>The hooks\<close>

text \<open>
  In the result of the replacement, a dollar is never first and always follows a
  backslash: by induction on the command, looking at the position of the dollar.
\<close>

lemma py_replace_dollar_nth:
  "i < length (py_replace CHR ''$'' (bslash @ ''$'') s) \<Longrightarrow>
   py_replace CHR ''$'' (bslash @ ''$'') s ! i = CHR ''$'' \<Longrightarrow>
   0 < i \<and> py_replace CHR ''$'' (bslash @ ''$'') s ! (i - 1) = backslash"
proof (induction s arbitrary: i)
  case Nil
  then show ?case by simp
next
  case (Cons x s)
  let ?R = "py_replace CHR ''$'' (bslash @ ''$'') s"
  show ?case
  proof (cases "x = CHR ''$''")
    case True
    then have r: "py_replace CHR ''$'' (bslash @ ''$'') (x # s) = backslash # CHR ''$'' # ?R"
      by (simp add: bslash_def)
    show ?thesis
    proof (cases i)
      case 0
      with Cons.prems r show ?thesis by (simp add: backslash_def)
    next
      case (Suc j)
      note i = Suc
      show ?thesis
      proof (cases j)
        case 0
        with i r show ?thesis by simp
      next
        case (Suc k)
        with i r Cons.prems have "k < length ?R" and "?R ! k = CHR ''$''" by simp_all
        from Cons.IH[OF this] have "0 < k" and "?R ! (k - 1) = backslash" by simp_all
        with i Suc r show ?thesis by (cases k) simp_all
      qed
    qed
  next
    case False
    then have r: "py_replace CHR ''$'' (bslash @ ''$'') (x # s) = x # ?R"
      by simp
    show ?thesis
    proof (cases i)
      case 0
      with Cons.prems r False show ?thesis by simp
    next
      case (Suc j)
      with r Cons.prems have "j < length ?R" and "?R ! j = CHR ''$''" by simp_all
      from Cons.IH[OF this] have "0 < j" and "?R ! (j - 1) = backslash" by simp_all
      with Suc r show ?thesis by (cases j) simp_all
    qed
  qed
qed

lemma py_replace_escapes: "backslash_before_dollars (py_replace CHR ''$'' (bslash @ ''$'') s)"
  unfolding backslash_before_dollars_def using py_replace_dollar_nth by blast

lemma escape_runs_escaped:
  "escape_runs runs = Inr rs \<Longrightarrow> r \<in> set rs \<Longrightarrow> backslash_before_dollars r"
proof (induction runs arbitrary: rs rule: escape_runs.induct)
  case 1
  then show ?case by simp
next
  case (2 run runs)
  then show ?case by (auto split: sum.splits simp: py_replace_escapes)
qed simp_all

lemma escape_runs_strings:
  "escape_runs (map PStr raw) = Inr (map (py_replace CHR ''$'' (bslash @ ''$'')) raw)"
  by (induction raw) simp_all

lemma hooks_escaped: "hooks v = Inr (Some rs) \<Longrightarrow> r \<in> set rs \<Longrightarrow> backslash_before_dollars r"
  by (auto simp: hooks_def string_to_list_def split: if_splits sum.splits pyval.splits
           dest: escape_runs_escaped)

lemma hooks_string:
  "hooks (PStr s) = Inr (Some (map (py_replace CHR ''$'' (bslash @ ''$'')) (py_split CHR '','' s)))"
  by (simp add: hooks_def string_to_list_def escape_runs_strings)

lemma hooks_list:
  "hooks (PList (map PStr raw)) = Inr (Some (map (py_replace CHR ''$'' (bslash @ ''$'')) raw))"
  by (simp add: hooks_def string_to_list_def escape_runs_strings)

lemma hooks_None: "hooks PNone = Inr None"
  by (simp add: hooks_def)

text \<open>
  Read as a line of the here-document, the result of the replacement has all its dollars
  quoted exactly when the given command had none quoted: the backslash put before a dollar
  quotes it when the dollar was live, and pairs up with the backslash that quoted it when
  it was quoted. A command without a backslash has no quoted dollar.
\<close>

lemma heredoc_dollar_head: "\<not> heredoc_dollars_quoted (CHR ''$'' # t)"
  by (cases t) (simp_all add: backslash_def)

lemma heredoc_plain_head:
  "c \<noteq> backslash \<Longrightarrow> c \<noteq> CHR ''$'' \<Longrightarrow>
   heredoc_dollars_quoted (c # t) = heredoc_dollars_quoted t"
  by (cases t) simp_all

lemma heredoc_pair_head:
  "heredoc_dollars_quoted (backslash # CHR ''$'' # t) = heredoc_dollars_quoted t"
  "heredoc_dollars_quoted (backslash # backslash # t) = heredoc_dollars_quoted t"
  "heredoc_dollars_quoted (backslash # backtick # t) = heredoc_dollars_quoted t"
  by simp_all

lemma heredoc_literal_backslash:
  "d \<noteq> backslash \<Longrightarrow> d \<noteq> CHR ''$'' \<Longrightarrow> d \<noteq> backtick \<Longrightarrow>
   heredoc_dollars_quoted (backslash # d # t) = heredoc_dollars_quoted (d # t)"
  by (simp add: backslash_def)

lemma escape_flips_dollars:
  "heredoc_dollars_quoted (py_replace CHR ''$'' (bslash @ ''$'') raw) = heredoc_dollars_live raw"
proof (induction raw rule: induct_list012)
  case 1
  then show ?case by simp
next
  case (2 c)
  then show ?case by (simp add: bslash_def backslash_def)
next
  case (3 c d s)
  let ?E = "py_replace CHR ''$'' (bslash @ ''$'')"
  have bd: "backslash \<noteq> CHR ''$''" and kd: "backtick \<noteq> CHR ''$''"
    and bk: "backslash \<noteq> backtick"
    by (simp_all add: backslash_def backtick_def)
  have tail: "heredoc_dollars_quoted (?E s) = heredoc_dollars_live s"
    and rest: "heredoc_dollars_quoted (?E (d # s)) = heredoc_dollars_live (d # s)"
    using 3 by blast+
  show ?case
  proof (cases "c = backslash")
    case True
    note c = True
    show ?thesis
    proof (cases "d = backslash \<or> d = backtick")
      case True
      then have dn: "d \<noteq> CHR ''$''" using bd kd by auto
      from c bd dn have e: "?E (c # d # s) = backslash # d # ?E s" by simp
      from True have q: "heredoc_dollars_quoted (backslash # d # ?E s) = heredoc_dollars_quoted (?E s)"
        using heredoc_pair_head(2,3) by blast
      from True c have l: "heredoc_dollars_live (c # d # s) = heredoc_dollars_live s" by simp
      show ?thesis unfolding e q l tail by (rule refl)
    next
      case False
      show ?thesis
      proof (cases "d = CHR ''$''")
        case True
        with c bd have e: "?E (c # d # s) = backslash # backslash # CHR ''$'' # ?E s"
          by (simp add: bslash_def)
        have q: "\<not> heredoc_dollars_quoted (backslash # backslash # CHR ''$'' # ?E s)"
          using heredoc_pair_head(2) heredoc_dollar_head by simp
        from True c bd bk kd have l: "\<not> heredoc_dollars_live (c # d # s)" by auto
        from q l show ?thesis unfolding e by blast
      next
        case dn: False
        with c bd have e: "?E (c # d # s) = backslash # ?E (d # s)"
          and e': "?E (d # s) = d # ?E s"
          by simp_all
        from False dn have q: "heredoc_dollars_quoted (backslash # d # ?E s) =
            heredoc_dollars_quoted (d # ?E s)"
          by (intro heredoc_literal_backslash) simp_all
        from False dn c have l: "heredoc_dollars_live (c # d # s) = heredoc_dollars_live (d # s)"
          by simp
        have "heredoc_dollars_quoted (?E (c # d # s)) =
            heredoc_dollars_quoted (backslash # d # ?E s)"
          unfolding e e' by (rule refl)
        also have "\<dots> = heredoc_dollars_quoted (d # ?E s)" by (rule q)
        also have "\<dots> = heredoc_dollars_live (d # s)" using rest unfolding e' .
        also have "\<dots> = heredoc_dollars_live (c # d # s)" by (rule l[symmetric])
        finally show ?thesis .
      qed
    qed
  next
    case False
    note c = False
    show ?thesis
    proof (cases "c = CHR ''$''")
      case True
      then have e: "?E (c # d # s) = backslash # CHR ''$'' # ?E (d # s)"
        by (simp add: bslash_def)
      have q: "heredoc_dollars_quoted (backslash # CHR ''$'' # ?E (d # s)) =
          heredoc_dollars_quoted (?E (d # s))"
        by (rule heredoc_pair_head(1))
      from c have l: "heredoc_dollars_live (c # d # s) = heredoc_dollars_live (d # s)" by simp
      show ?thesis unfolding e q l rest by (rule refl)
    next
      case False
      then have e: "?E (c # d # s) = c # ?E (d # s)" by simp
      from c False have q: "heredoc_dollars_quoted (c # ?E (d # s)) =
          heredoc_dollars_quoted (?E (d # s))"
        by (rule heredoc_plain_head)
      from c have l: "heredoc_dollars_live (c # d # s) = heredoc_dollars_live (d # s)" by simp
      show ?thesis unfolding e q l rest by (rule refl)
    qed
  qed
qed


lemma escape_quotes_plain:
  "backslash \<notin> set raw \<Longrightarrow>
   heredoc_dollars_quoted (py_replace CHR ''$'' (bslash @ ''$'') raw)"
proof -
  have "backslash \<notin> set raw \<Longrightarrow> heredoc_dollars_live raw"
    by (induction raw rule: induct_list012) auto
  then show "backslash \<notin> set raw \<Longrightarrow>
     heredoc_dollars_quoted (py_replace CHR ''$'' (bslash @ ''$'') raw)"
    by (simp add: escape_flips_dollars)
qed

section \<open>The statements of the script\<close>

lemma extend_nonempty: "(if xs \<noteq> [] then ys @ xs else ys) = ys @ xs"
  by simp

text \<open>The list the source builds is the list in the specified order.\<close>

lemma cmd_list_ordered:
  "cmd_list args rb ra port pt = ordered_script args rb ra port pt"
  by (cases rb; cases ra)
     (simp_all add: cmd_list_def ordered_script_def hook_lines_def Let_def extend_nonempty)

lemma with_username_other: "opt \<noteq> ''host'' \<Longrightarrow> with_username args opt = args opt"
  by (simp add: with_username_def)

lemma with_username_lines:
  "cd_cmd (with_username args) = cd_cmd args"
  "source_cmd (with_username args) = source_cmd args"
  by (simp_all add: cd_cmd_def source_cmd_def with_username_other)

lemma ordered_script_prefix:
  "\<exists>rest. ordered_script args (Some rs) ra port pt =
      ssh_cmd args port pt # (if args ''workdir'' \<noteq> PNone then [cd_cmd args] else []) @ rs @
      (if args ''mysetup'' \<noteq> PNone then [source_cmd args] else []) @ rest"
  by (simp add: ordered_script_def hook_lines_def)

text \<open>
  When the two checks pass and both hook options are well formed, the command is built;
  and a command that was built came this way.
\<close>

lemma build_cmd_ok:
  assumes "args ''host'' \<noteq> PNone"
    and "\<not> (py_truthy (args ''tensorboard'') \<and> args ''logdir'' = PNone)"
    and "hooks (args ''runbefore'') = Inr rb"
    and "hooks (args ''runafter'') = Inr ra"
  shows "build_cmd w args =
           (let port = 1025 + int (entropy w mod 64609);
                cmds = cmd_list (with_username args) rb ra port (port + 1)
            in Inr (cmds, py_join [CHR 0x0A] cmds))"
  using assms
  by (simp add: build_cmd_def with_username_other derive_ports_def randint_def Let_def)

lemma build_cmd_Inr:
  assumes "build_cmd w args = Inr (cmds, cmd)"
  shows "\<exists>rb ra port. hooks (args ''runbefore'') = Inr rb \<and> hooks (args ''runafter'') = Inr ra \<and>
           1025 \<le> port \<and> port < 65634 \<and> args ''host'' \<noteq> PNone \<and>
           cmds = cmd_list (with_username args) rb ra port (port + 1) \<and>
           cmd = py_join [CHR 0x0A] cmds"
proof -
  from assms have h: "args ''host'' \<noteq> PNone"
    by (auto simp: build_cmd_def split: if_splits)
  from assms h have t: "\<not> (py_truthy (args ''tensorboard'') \<and> args ''logdir'' = PNone)"
    by (auto simp: build_cmd_def with_username_other Let_def split: if_splits)
  from assms h t obtain rb where rb: "hooks (args ''runbefore'') = Inr rb"
    by (cases "hooks (args ''runbefore'')")
       (auto simp: build_cmd_def with_username_other Let_def split: if_splits)
  from assms h t rb obtain ra where ra: "hooks (args ''runafter'') = Inr ra"
    by (cases "hooks (args ''runafter'')")
       (auto simp: build_cmd_def with_username_other Let_def split: if_splits)
  let ?port = "1025 + int (entropy w mod 64609)"
  have "1025 \<le> ?port" and "?port < 65634" by simp_all
  moreover from assms build_cmd_ok[OF h t rb ra, of w]
  have "cmds = cmd_list (with_username args) rb ra ?port (?port + 1)"
    and "cmd = py_join [CHR 0x0A] cmds"
    by (auto simp: Let_def)
  ultimately show ?thesis using rb ra h by blast
qed

section \<open>Runs of the program\<close>

lemma default_config_home:
  "DEFAULT_CONFIG bare_world = Inr ''/home/u/.stackyter-config.yaml''"
  "DEFAULT_CONFIG demo_world = Inr ''/home/u/.stackyter-config.yaml''"
  "DEFAULT_CONFIG (env_world path) = Inr ''/home/u/.stackyter-config.yaml''"
  by (simp_all add: DEFAULT_CONFIG_def bare_world_def demo_world_def env_world_def)

lemma env_world_fields:
  "getenv (env_world path) ''STACKYTERCONFIG'' = Some path"
  "file_text (env_world path) = demo_files"
  "path_exists (env_world path) q = (demo_files q \<noteq> None)"
  by (simp_all add: env_world_def demo_world_def)

lemma get_config_none:
  "get_config bare_world dc None None = ([], Inr PNone)"
  by (simp add: get_config_def get_default_config_def bare_world_def)

text \<open>A run that does not show the configuration, once the options are merged.\<close>

lemma main_run:
  assumes "\<not> arg_showconfig cl"
    and "get_config w dc (arg_config cl) (arg_configfile cl) = (out, Inr config)"
    and "merge_config config (namespace_of defaults) (namespace_of cl) = Inr args"
  shows "main w dc cl =
           (case build_cmd w args of
              Inl e \<Rightarrow> \<lparr>stdout = out, spawned = [], outcome = Raised e\<rparr>
            | Inr (cmds, cmd) \<Rightarrow>
                \<lparr>stdout = out, spawned = [(cmd, shell w cmd)], outcome = Returned\<rparr>)"
  using assms by (simp add: main_def Let_def)

lemma show_config_spawns_nothing: "spawned (show_config w dc) = []"
  by (simp add: show_config_def split: sum.splits pyval.splits)

lemma bare_run:
  assumes "\<not> arg_showconfig cl" and "arg_config cl = None" and "arg_configfile cl = None"
  shows "program bare_world cl =
           (case build_cmd bare_world (namespace_of cl) of
              Inl e \<Rightarrow> \<lparr>stdout = [], spawned = [], outcome = Raised e\<rparr>
            | Inr (cmds, cmd) \<Rightarrow> \<lparr>stdout = [], spawned = [(cmd, 3)], outcome = Returned\<rparr>)"
proof -
  have g: "get_config bare_world ''/home/u/.stackyter-config.yaml'' (arg_config cl) (arg_configfile cl) =
             ([], Inr PNone)"
    using assms get_config_none by simp
  have m: "merge_config PNone (namespace_of defaults) (namespace_of cl) = Inr (namespace_of cl)"
    by (simp add: merge_config_def)
  have s: "shell bare_world = (\<lambda>cmd. 3)" by (simp add: bare_world_def)
  show ?thesis
    using main_run[OF assms(1) g m] s
    by (simp add: program_def default_config_home split: sum.splits)
qed

lemma host_cmdline_builds:
  "\<exists>cmds cmd. build_cmd bare_world (namespace_of host_cmdline) = Inr (cmds, cmd)"
  using build_cmd_ok[of "namespace_of host_cmdline" None None bare_world]
  by (simp add: namespace_of_def host_cmdline_def defaults_def py_opt_def hooks_None Let_def)

lemma empty_host_builds:
  "\<exists>cmds cmd. build_cmd bare_world (namespace_of empty_host_cmdline) = Inr (cmds, cmd)"
  using build_cmd_ok[of "namespace_of empty_host_cmdline" None None bare_world]
  by (simp add: namespace_of_def empty_host_cmdline_def defaults_def py_opt_def hooks_None Let_def)

lemma full_cmdline_args:
  "namespace_of full_cmdline ''host'' = PStr ''cli-host''"
  "namespace_of full_cmdline ''username'' = PStr ''me''"
  "namespace_of full_cmdline ''workdir'' = PStr ''/work''"
  "namespace_of full_cmdline ''mysetup'' = PStr ''setup.sh''"
  "namespace_of full_cmdline ''runbefore'' = PStr ''echo a,echo b''"
  "namespace_of full_cmdline ''runafter'' = PStr ''echo $HOME''"
  "namespace_of full_cmdline ''tensorboard'' = PBool True"
  "namespace_of full_cmdline ''logdir'' = PStr ''/logs''"
  "namespace_of full_cmdline ''jupyter'' = PStr ''notebook''"
  "namespace_of full_cmdline ''compression'' = PBool False"
  by (simp_all add: namespace_of_def full_cmdline_def defaults_def py_opt_def)

lemma full_cmdline_hooks:
  "hooks (namespace_of full_cmdline ''runbefore'') = Inr (Some [''echo a'', ''echo b''])"
  "hooks (namespace_of full_cmdline ''runafter'') = Inr (Some [''echo '' @ bslash @ ''$HOME''])"
  by (simp_all add: full_cmdline_args hooks_string)

lemma full_cmdline_builds:
  "\<exists>cmds cmd. build_cmd bare_world (namespace_of full_cmdline) = Inr (cmds, cmd)"
  using build_cmd_ok[OF _ _ full_cmdline_hooks, of bare_world]
  by (simp add: full_cmdline_args Let_def)

lemma quoted_hook_args:
  "namespace_of quoted_hook_cmdline ''host'' = PStr ''cli-host''"
  "namespace_of quoted_hook_cmdline ''username'' = PNone"
  "namespace_of quoted_hook_cmdline ''workdir'' = PNone"
  "namespace_of quoted_hook_cmdline ''mysetup'' = PNone"
  "namespace_of quoted_hook_cmdline ''runbefore'' = PStr (''echo '' @ bslash @ ''$HOME'')"
  "namespace_of quoted_hook_cmdline ''runafter'' = PNone"
  "namespace_of quoted_hook_cmdline ''tensorboard'' = PBool False"
  by (simp_all add: namespace_of_def quoted_hook_cmdline_def defaults_def py_opt_def)

lemma quoted_hook_escaped:
  "hooks (PStr (''echo '' @ bslash @ ''$HOME'')) =
     Inr (Some [''echo '' @ bslash @ bslash @ ''$HOME''])"
  by (simp add: hooks_string bslash_def backslash_def)

section \<open>The exit status\<close>

text \<open>
  Claim C4, as the code has it. \<^verbatim>\<open>main\<close> calls \<^verbatim>\<open>subprocess.call\<close> as a statement and returns
  nothing, and the script ends with \<^verbatim>\<open>main()\<close>: a run that hands a command to the shell
  hands it exactly one, ends by returning, and its exit status is 0, whatever status the
  shell gave back.
\<close>

theorem exit_status_of_run:
  assumes "spawned (program w cl) \<noteq> []"
  shows "(\<exists>cmd. spawned (program w cl) = [(cmd, shell w cmd)]) \<and>
         outcome (program w cl) = Returned \<and> exit_status (program w cl) = 0"
proof -
  from assms obtain dc where dc: "DEFAULT_CONFIG w = Inr dc"
    by (cases "DEFAULT_CONFIG w") (auto simp: program_def)
  then have p: "program w cl = main w dc cl" by (simp add: program_def)
  with assms have s: "spawned (main w dc cl) \<noteq> []" by simp
  then have ns: "\<not> arg_showconfig cl"
    by (auto simp: main_def Let_def show_config_spawns_nothing)
  obtain out r where g: "get_config w dc (arg_config cl) (arg_configfile cl) = (out, r)"
    by (cases "get_config w dc (arg_config cl) (arg_configfile cl)")
  from s ns g obtain config where r: "r = Inr config"
    by (cases r) (auto simp: main_def Let_def)
  from s ns g r obtain args where
    m: "merge_config config (namespace_of defaults) (namespace_of cl) = Inr args"
    by (cases "merge_config config (namespace_of defaults) (namespace_of cl)")
       (auto simp: main_def Let_def)
  note run = main_run[OF ns g[unfolded r] m]
  from s run obtain cmds cmd where b: "build_cmd w args = Inr (cmds, cmd)"
    by (cases "build_cmd w args") auto
  with run have "main w dc cl = \<lparr>stdout = out, spawned = [(cmd, shell w cmd)], outcome = Returned\<rparr>"
    by simp
  with p show ?thesis by (simp add: exit_status_def)
qed

theorem exit_status_of_run_witness:
  "spawned (program bare_world host_cmdline) \<noteq> [] \<and>
   outcome (program bare_world host_cmdline) = Returned \<and>
   exit_status (program bare_world host_cmdline) = 0"
proof -
  from host_cmdline_builds obtain cmds cmd where
    "build_cmd bare_world (namespace_of host_cmdline) = Inr (cmds, cmd)" by blast
  then have "program bare_world host_cmdline =
      \<lparr>stdout = [], spawned = [(cmd, 3)], outcome = Returned\<rparr>"
    using bare_run[of host_cmdline] by (simp add: host_cmdline_def defaults_def)
  then have s: "spawned (program bare_world host_cmdline) \<noteq> []" by simp
  from exit_status_of_run[OF s] s show ?thesis by simp
qed

text \<open>
  Claim C4, as the specification has it, fails: with \<^verbatim>\<open>--host cli-host\<close> and no configuration
  file, the one command the run hands to the shell ends with status 3 and the run with
  status 0.
\<close>

theorem exit_status_counterexample:
  "map snd (spawned (program bare_world host_cmdline)) = [3] \<and>
   exit_status (program bare_world host_cmdline) = 0"
proof -
  from host_cmdline_builds obtain cmds cmd where
    "build_cmd bare_world (namespace_of host_cmdline) = Inr (cmds, cmd)" by blast
  then have "program bare_world host_cmdline =
      \<lparr>stdout = [], spawned = [(cmd, 3)], outcome = Returned\<rparr>"
    using bare_run[of host_cmdline] by (simp add: host_cmdline_def defaults_def)
  then show ?thesis by (simp add: exit_status_def)
qed

section \<open>The two checks\<close>

text \<open>
  Claim C5, as the code has it. \<open>args\<close> are the options after the overlay. A host that is
  \<^verbatim>\<open>None\<close> ends the run with the \<^verbatim>\<open>ValueError\<close> of line 197; a host that is not \<^verbatim>\<open>None\<close>, with
  the TensorBoard flag true and a log directory that is \<^verbatim>\<open>None\<close>, ends it with the
  \<^verbatim>\<open>ValueError\<close> of line 205. In both cases no statement is assembled and nothing is handed
  to the shell. The test of line 196 is \<^verbatim>\<open>is None\<close>: it says nothing of an empty string.
\<close>

theorem validation_fails_fast:
  assumes "\<not> arg_showconfig cl"
    and "get_config w dc (arg_config cl) (arg_configfile cl) = (out, Inr config)"
    and "merge_config config (namespace_of defaults) (namespace_of cl) = Inr args"
  shows "(args ''host'' = PNone \<longrightarrow>
            main w dc cl =
              \<lparr>stdout = out, spawned = [],
               outcome = Raised (ValueError ''You must give a valide host name (--host)'')\<rparr>) \<and>
         (args ''host'' \<noteq> PNone \<and> py_truthy (args ''tensorboard'') \<and> args ''logdir'' = PNone \<longrightarrow>
            main w dc cl =
              \<lparr>stdout = out, spawned = [],
               outcome = Raised (ValueError
                 ''You must provide a logdir path to TensorBoard (--logdir)'')\<rparr>)"
  using main_run[OF assms]
  by (simp add: build_cmd_def with_username_other)

text \<open>No option at all, and \<^verbatim>\<open>--host cli-host --tensorboard\<close> without \<^verbatim>\<open>--logdir\<close>.\<close>

theorem validation_fails_fast_witness:
  "main bare_world ''/home/u/.stackyter-config.yaml'' defaults =
     \<lparr>stdout = [], spawned = [],
      outcome = Raised (ValueError ''You must give a valide host name (--host)'')\<rparr> \<and>
   main bare_world ''/home/u/.stackyter-config.yaml'' tensorboard_cmdline =
     \<lparr>stdout = [], spawned = [],
      outcome = Raised (ValueError ''You must provide a logdir path to TensorBoard (--logdir)'')\<rparr>"
proof -
  let ?dc = "''/home/u/.stackyter-config.yaml''"
  have s1: "\<not> arg_showconfig defaults" and s2: "\<not> arg_showconfig tensorboard_cmdline"
    by (simp_all add: defaults_def tensorboard_cmdline_def)
  have g1: "get_config bare_world ?dc (arg_config defaults) (arg_configfile defaults) = ([], Inr PNone)"
    and g2: "get_config bare_world ?dc (arg_config tensorboard_cmdline)
               (arg_configfile tensorboard_cmdline) = ([], Inr PNone)"
    by (simp_all add: defaults_def tensorboard_cmdline_def get_config_none)
  have m1: "merge_config PNone (namespace_of defaults) (namespace_of defaults) =
              Inr (namespace_of defaults)"
    and m2: "merge_config PNone (namespace_of defaults) (namespace_of tensorboard_cmdline) =
              Inr (namespace_of tensorboard_cmdline)"
    by (simp_all add: merge_config_def)
  have h1: "namespace_of defaults ''host'' = PNone"
    by (simp add: namespace_of_def defaults_def py_opt_def)
  have h2: "namespace_of tensorboard_cmdline ''host'' \<noteq> PNone \<and>
            py_truthy (namespace_of tensorboard_cmdline ''tensorboard'') \<and>
            namespace_of tensorboard_cmdline ''logdir'' = PNone"
    by (simp add: namespace_of_def tensorboard_cmdline_def defaults_def py_opt_def)
  from validation_fails_fast[OF s1 g1 m1] h1 validation_fails_fast[OF s2 g2 m2] h2
  show ?thesis by blast
qed

text \<open>
  Claim C5, as the specification has it, fails for the empty host: with \<^verbatim>\<open>--host ""\<close> the
  effective host is the empty string, the run hands its command to the shell and returns.
\<close>

theorem empty_host_counterexample:
  "namespace_of empty_host_cmdline ''host'' = PStr [] \<and>
   outcome (program bare_world empty_host_cmdline) = Returned \<and>
   length (spawned (program bare_world empty_host_cmdline)) = 1"
proof -
  from empty_host_builds obtain cmds cmd where
    "build_cmd bare_world (namespace_of empty_host_cmdline) = Inr (cmds, cmd)" by blast
  then have "program bare_world empty_host_cmdline =
      \<lparr>stdout = [], spawned = [(cmd, 3)], outcome = Returned\<rparr>"
    using bare_run[of empty_host_cmdline] by (simp add: empty_host_cmdline_def defaults_def)
  then show ?thesis
    by (simp add: namespace_of_def empty_host_cmdline_def defaults_def py_opt_def)
qed

section \<open>\<^verbatim>\<open>STACKYTERCONFIG\<close>\<close>

text \<open>
  As soon as the variable is set, line 26 raises \<^verbatim>\<open>AttributeError\<close>: neither the
  \<^verbatim>\<open>IOError\<close> of line 27 nor the return of line 33 is reached.
\<close>

lemma get_default_config_env:
  "getenv w ''STACKYTERCONFIG'' = Some path \<Longrightarrow>
   get_default_config w dc only_path = Inl AttributeError"
  by (simp add: get_default_config_def os_path_exist_def)

text \<open>
  Claim C3 against the code. With \<^verbatim>\<open>STACKYTERCONFIG=/missing.yaml\<close> and no such file,
  locating the configuration file does fail before the default path is looked at, but with
  the \<^verbatim>\<open>AttributeError\<close> of the misspelt \<^verbatim>\<open>os.path.exist\<close>, not with the \<^verbatim>\<open>IOError\<close> line 27
  means to raise.
\<close>

theorem env_config_missing:
  "\<not> path_exists (env_world ''/missing.yaml'') ''/missing.yaml'' \<and>
   get_default_config (env_world ''/missing.yaml'') dc only_path = Inl AttributeError \<and>
   get_default_config (env_world ''/missing.yaml'') dc only_path \<noteq>
     Inl (IOError ''$STACKYTERCONFIG is defined but the file does not exist.'')"
  by (simp add: get_default_config_env[OF env_world_fields(1)] env_world_fields demo_files_def)

section \<open>Showing the configuration\<close>

text \<open>
  Without \<^verbatim>\<open>STACKYTERCONFIG\<close>, \<^verbatim>\<open>--showconfig\<close> prints the default file when it is there and
  the absence message when it is not, and exits with status 0 in both cases; only a file
  that is there and cannot be opened ends the run with the error of \<^verbatim>\<open>open\<close>.
\<close>

lemma show_config_default:
  assumes "getenv w ''STACKYTERCONFIG'' = None"
  shows "show_config w dc =
           (if path_exists w dc then
              (case file_text w dc of
                 None \<Rightarrow> \<lparr>stdout = [], spawned = [], outcome = Raised (OSError dc)\<rparr>
               | Some t \<Rightarrow>
                   \<lparr>stdout = [''Your default configuration file contains the following '' @
                               ''configuration(s).'', t],
                    spawned = [], outcome = SysExit 0\<rparr>)
            else \<lparr>stdout = [''Error: No default configuration file found.''], spawned = [],
                  outcome = SysExit 0\<rparr>)"
  using assms
  by (simp add: show_config_def get_default_config_def open_read_def split: option.splits)

text \<open>
  Claim C9 against the code. With \<^verbatim>\<open>STACKYTERCONFIG=/two.yaml\<close>, a file that is there,
  \<^verbatim>\<open>--showconfig\<close> prints nothing and ends with the uncaught \<^verbatim>\<open>AttributeError\<close> of line 26,
  exit status 1.
\<close>

theorem showconfig_env_set:
  "file_text (env_world ''/two.yaml'') ''/two.yaml'' =
     Some ''{a: {host: alpha, workdir: /work}, b: {host: beta}}'' \<and>
   program (env_world ''/two.yaml'') showconfig_cmdline =
     \<lparr>stdout = [], spawned = [], outcome = Raised AttributeError\<rparr> \<and>
   exit_status (program (env_world ''/two.yaml'') showconfig_cmdline) = 1"
  by (simp add: program_def default_config_home main_def showconfig_cmdline_def defaults_def
      show_config_def get_default_config_env[OF env_world_fields(1)] env_world_fields
      demo_files_def exit_status_def)

section \<open>The pre-hooks\<close>

text \<open>
  What holds of the pre-hooks. The string \<^verbatim>\<open>echo a,echo b\<close> gives the list of \<^verbatim>\<open>echo a\<close>
  and \<^verbatim>\<open>echo b\<close>, in this order; a list passes through \<^verbatim>\<open>string_to_list\<close> unchanged, and
  a list of strings becomes the list of its elements after the replacement; in every hook
  command that comes out, a backslash stands right before each dollar; and in a script
  that is built, the pre-hooks stand after the header and the change of working directory,
  when there is one, and before the line that sources the setup file, when there is one.
\<close>

lemma pre_hooks_split_and_place:
  "string_to_list (PStr ''echo a,echo b'') = Inr (PList [PStr ''echo a'', PStr ''echo b'']) \<and>
   hooks (PStr ''echo a,echo b'') = Inr (Some [''echo a'', ''echo b'']) \<and>
   string_to_list (PList xs) = Inr (PList xs) \<and>
   hooks (PList (map PStr raw)) = Inr (Some (map (py_replace CHR ''$'' (bslash @ ''$'')) raw)) \<and>
   (hooks v = Inr (Some rs) \<longrightarrow> (\<forall>r\<in>set rs. backslash_before_dollars r)) \<and>
   (build_cmd w args = Inr (cmds, cmd) \<and> hooks (args ''runbefore'') = Inr (Some rs) \<longrightarrow>
      (\<exists>header rest.
         cmds = header # (if args ''workdir'' \<noteq> PNone then [cd_cmd args] else []) @ rs @
                (if args ''mysetup'' \<noteq> PNone then [source_cmd args] else []) @ rest))"
proof (intro conjI impI)
  show "string_to_list (PStr ''echo a,echo b'') = Inr (PList [PStr ''echo a'', PStr ''echo b''])"
    by (simp add: string_to_list_def)
  show "hooks (PStr ''echo a,echo b'') = Inr (Some [''echo a'', ''echo b''])"
    by (simp add: hooks_string)
  show "string_to_list (PList xs) = Inr (PList xs)"
    by (simp add: string_to_list_def)
  show "hooks (PList (map PStr raw)) = Inr (Some (map (py_replace CHR ''$'' (bslash @ ''$'')) raw))"
    by (rule hooks_list)
next
  assume "hooks v = Inr (Some rs)"
  then show "\<forall>r\<in>set rs. backslash_before_dollars r"
    using hooks_escaped by blast
next
  assume h: "build_cmd w args = Inr (cmds, cmd) \<and> hooks (args ''runbefore'') = Inr (Some rs)"
  then obtain rb ra port where
    rb: "hooks (args ''runbefore'') = Inr rb" and
    c: "cmds = cmd_list (with_username args) rb ra port (port + 1)"
    using build_cmd_Inr[of w args cmds cmd] by blast
  from h rb have "rb = Some rs" by simp
  with c have "cmds = ordered_script (with_username args) (Some rs) ra port (port + 1)"
    by (simp add: cmd_list_ordered)
  with ordered_script_prefix[of "with_username args" rs ra port "port + 1"]
  show "\<exists>header rest.
         cmds = header # (if args ''workdir'' \<noteq> PNone then [cd_cmd args] else []) @ rs @
                (if args ''mysetup'' \<noteq> PNone then [source_cmd args] else []) @ rest"
    by (auto simp: with_username_lines with_username_other)
qed

lemma pre_hooks_example:
  "hooks (PStr ''echo $HOME'') = Inr (Some [''echo '' @ bslash @ ''$HOME'']) \<and>
   backslash_before_dollars (''echo '' @ bslash @ ''$HOME'') \<and>
   hooks (namespace_of full_cmdline ''runbefore'') = Inr (Some [''echo a'', ''echo b'']) \<and>
   (\<exists>header rest cmd.
      build_cmd bare_world (namespace_of full_cmdline) =
        Inr (header # ''cd /work'' # ''echo a'' # ''echo b'' # ''source setup.sh'' # rest, cmd))"
proof -
  let ?A = "namespace_of full_cmdline"
  let ?r = "''echo '' @ bslash @ ''$HOME''"
  have h: "hooks (PStr ''echo $HOME'') = Inr (Some [?r])"
    by (simp add: hooks_string)
  from full_cmdline_builds obtain cmds cmd where
    b: "build_cmd bare_world ?A = Inr (cmds, cmd)" by blast
  have "\<forall>r\<in>set [?r]. backslash_before_dollars r"
    using pre_hooks_split_and_place[where v = "PStr ''echo $HOME''" and rs = "[?r]",
        THEN conjunct2, THEN conjunct2, THEN conjunct2, THEN conjunct2, THEN conjunct1] h
    by blast
  then have e: "backslash_before_dollars ?r" by simp
  have "\<exists>header rest.
         cmds = header # (if ?A ''workdir'' \<noteq> PNone then [cd_cmd ?A] else []) @
                [''echo a'', ''echo b''] @
                (if ?A ''mysetup'' \<noteq> PNone then [source_cmd ?A] else []) @ rest"
    using pre_hooks_split_and_place[where w = bare_world and args = ?A and cmds = cmds and cmd = cmd
        and rs = "[''echo a'', ''echo b'']",
        THEN conjunct2, THEN conjunct2, THEN conjunct2, THEN conjunct2, THEN conjunct2]
      b full_cmdline_hooks(1)
    by blast
  then obtain header rest where
    "cmds = header # ''cd /work'' # ''echo a'' # ''echo b'' # ''source setup.sh'' # rest"
    by (auto simp: full_cmdline_args cd_cmd_def source_cmd_def py_str_def)
  with b h e full_cmdline_hooks(1) show ?thesis by blast
qed

text \<open>
  Claim C7 against the code. The claim has every dollar of a hook command escaped for the
  here-document. For the pre-hook \<^verbatim>\<open>echo \$HOME\<close>, whose dollar is quoted, lines 210 and 211
  give \<^verbatim>\<open>echo \\$HOME\<close>: the two backslashes pair up and the dollar is left to the local
  shell, and this is the statement that stands in the script, right after the header.
\<close>

theorem quoted_dollar_made_live:
  "heredoc_dollars_quoted (''echo '' @ bslash @ ''$HOME'') \<and>
   hooks (PStr (''echo '' @ bslash @ ''$HOME'')) =
     Inr (Some [''echo '' @ bslash @ bslash @ ''$HOME'']) \<and>
   \<not> heredoc_dollars_quoted (''echo '' @ bslash @ bslash @ ''$HOME'') \<and>
   (\<exists>header rest cmd.
      build_cmd bare_world (namespace_of quoted_hook_cmdline) =
        Inr (header # (''echo '' @ bslash @ bslash @ ''$HOME'') # rest, cmd))"
proof -
  let ?A = "namespace_of quoted_hook_cmdline"
  let ?r = "''echo '' @ bslash @ bslash @ ''$HOME''"
  have q: "heredoc_dollars_quoted (''echo '' @ bslash @ ''$HOME'')"
    and n: "\<not> heredoc_dollars_quoted ?r"
    by (simp_all add: bslash_def backslash_def backtick_def)
  have rb: "hooks (?A ''runbefore'') = Inr (Some [?r])"
    unfolding quoted_hook_args by (rule quoted_hook_escaped)
  have ra: "hooks (?A ''runafter'') = Inr None"
    unfolding quoted_hook_args by (rule hooks_None)
  have "build_cmd bare_world ?A =
      (let port = 1025 + int (entropy bare_world mod 64609);
           cmds = cmd_list (with_username ?A) (Some [?r]) None port (port + 1)
       in Inr (cmds, py_join [CHR 0x0A] cmds))"
    by (rule build_cmd_ok[OF _ _ rb ra]) (simp_all add: quoted_hook_args)
  then have "\<exists>header rest cmd. build_cmd bare_world ?A = Inr (header # ?r # rest, cmd)"
    by (simp add: Let_def cmd_list_ordered ordered_script_def hook_lines_def
        with_username_other quoted_hook_args)
  with q n quoted_hook_escaped show ?thesis by blast
qed

section \<open>The order of the script\<close>

text \<open>
  Claim C8 (statement order). A script that is built is the list of the specified order,
  for the options with the user name put before the host, the two hook lists and a port
  of the range with its successor, and the text handed to the shell is its statements
  joined by line feeds; and a script is built whenever the host is not \<^verbatim>\<open>None\<close>, the log
  directory is there when TensorBoard is asked for, and both hook options are well formed.
\<close>

theorem script_order:
  "(build_cmd w args = Inr (cmds, cmd) \<longrightarrow>
      (\<exists>rb ra port.
         hooks (args ''runbefore'') = Inr rb \<and> hooks (args ''runafter'') = Inr ra \<and>
         1025 \<le> port \<and> port < 65634 \<and>
         cmds = ordered_script (with_username args) rb ra port (port + 1) \<and>
         cmd = py_join [CHR 0x0A] cmds)) \<and>
   (args ''host'' \<noteq> PNone \<and> \<not> (py_truthy (args ''tensorboard'') \<and> args ''logdir'' = PNone) \<and>
    hooks (args ''runbefore'') = Inr rb' \<and> hooks (args ''runafter'') = Inr ra' \<longrightarrow>
      (\<exists>cmds' cmd'. build_cmd w args = Inr (cmds', cmd')))"
proof (intro conjI impI)
  assume "build_cmd w args = Inr (cmds, cmd)"
  from build_cmd_Inr[OF this] show "\<exists>rb ra port.
         hooks (args ''runbefore'') = Inr rb \<and> hooks (args ''runafter'') = Inr ra \<and>
         1025 \<le> port \<and> port < 65634 \<and>
         cmds = ordered_script (with_username args) rb ra port (port + 1) \<and>
         cmd = py_join [CHR 0x0A] cmds"
    by (auto simp: cmd_list_ordered)
next
  assume "args ''host'' \<noteq> PNone \<and> \<not> (py_truthy (args ''tensorboard'') \<and> args ''logdir'' = PNone) \<and>
    hooks (args ''runbefore'') = Inr rb' \<and> hooks (args ''runafter'') = Inr ra'"
  then show "\<exists>cmds' cmd'. build_cmd w args = Inr (cmds', cmd')"
    using build_cmd_ok[of args rb' ra' w] by (simp add: Let_def)
qed

text \<open>The first words of the eighteen statements of a run that sets every option.\<close>

theorem script_order_witness:
  "\<exists>cmds cmd.
     build_cmd bare_world (namespace_of full_cmdline) = Inr (cmds, cmd) \<and>
     map first_word cmds =
       [''ssh'', ''cd'', ''echo'', ''echo'', ''source'', ''echo'', ''jupyter'', ''tensorboard'',
        ''export'', ''while'', ''export'', ''export'', ''printf'', ''printf'', ''fg'', ''kill'',
        ''kill'', ''EOF'']"
proof -
  let ?A = "namespace_of full_cmdline"
  let ?rb = "Some [''echo a'', ''echo b'']"
  let ?ra = "Some [''echo '' @ bslash @ ''$HOME'']"
  have pre: "?A ''host'' \<noteq> PNone \<and>
             \<not> (py_truthy (?A ''tensorboard'') \<and> ?A ''logdir'' = PNone) \<and>
             hooks (?A ''runbefore'') = Inr ?rb \<and> hooks (?A ''runafter'') = Inr ?ra"
    using full_cmdline_hooks by (simp add: full_cmdline_args(1,7,8))
  from script_order[where w = bare_world and args = ?A and rb' = ?rb and ra' = ?ra,
      THEN conjunct2, THEN mp, OF pre]
  obtain cmds cmd where b: "build_cmd bare_world ?A = Inr (cmds, cmd)" by blast
  from script_order[where w = bare_world and args = ?A and cmds = cmds and cmd = cmd,
      THEN conjunct1, THEN mp, OF b]
  obtain rb ra port where
    "hooks (?A ''runbefore'') = Inr rb" and "hooks (?A ''runafter'') = Inr ra" and
    "cmds = ordered_script (with_username ?A) rb ra port (port + 1)"
    by blast
  with full_cmdline_hooks have
    c: "cmds = ordered_script (with_username ?A) ?rb ?ra port (port + 1)"
    by simp
  have "map first_word cmds =
       [''ssh'', ''cd'', ''echo'', ''echo'', ''source'', ''echo'', ''jupyter'', ''tensorboard'',
        ''export'', ''while'', ''export'', ''export'', ''printf'', ''printf'', ''fg'', ''kill'',
        ''kill'', ''EOF'']"
    unfolding c
    by (simp add: ordered_script_def hook_lines_def with_username_other full_cmdline_args
        first_word_def ssh_cmd_def cd_cmd_def source_cmd_def jupyter_cmd_def tensorboard_cmd_def
        list_cmd_def wait_cmd_def server_cmd_def token_cmd_def shellprint_cmd_def
        tensorboard_print_cmd_def kill_jupyter_cmd_def kill_tensorboard_cmd_def)
  with b have "build_cmd bare_world ?A = Inr (cmds, cmd) \<and>
     map first_word cmds =
       [''ssh'', ''cd'', ''echo'', ''echo'', ''source'', ''echo'', ''jupyter'', ''tensorboard'',
        ''export'', ''while'', ''export'', ''export'', ''printf'', ''printf'', ''fg'', ''kill'',
        ''kill'', ''EOF'']"
    by (rule conjI)
  then show ?thesis by - (rule exI, rule exI, assumption)
qed

end
